theory Spec2Isabelle
  imports Main
begin

section \<open>Data model of the schema\<close>

text \<open>
  The store is the PostgreSQL schema of the repository (tables, constraints, row-level
  policies, column defaults); the callers are the handlers of the React pages, which talk
  to the store through one request per \<^verbatim>\<open>supabase.from(..)\<close> call.

  UUID columns are modelled as natural numbers: only equality of identifiers is ever used,
  and a UUID is never the empty string, so the JavaScript truthiness test
  \<^verbatim>\<open>if (f?.runway_id)\<close> is the test for a non-null column. Timestamps are
  milliseconds since the epoch, the unit of \<^verbatim>\<open>Date.getTime()\<close>. The columns
  \<^verbatim>\<open>created_at\<close> and \<^verbatim>\<open>updated_at\<close> are left out of the rows: no handler
  writes them and no property below reads them.
\<close>

type_synonym uuid = nat
type_synonym timestamptz = int

datatype app_role = admin | atc | staff

datatype flight_status =
  scheduled | boarding | delayed | departed | landed | cancelled | emergency

datatype runway_status = available | occupied | maintenance | closed

datatype passenger_boarding_status = pb_checked_in | pb_boarding | pb_boarded | pb_no_show

datatype alert_severity = sev_info | sev_warning | sev_critical | sev_emergency

record user_role =
  ur_id :: uuid
  ur_user_id :: uuid
  ur_role :: app_role

record runway =
  r_id :: uuid
  r_name :: string
  r_length_meters :: int
  r_status :: runway_status
  r_surface_type :: string
  r_notes :: "string option"

record flight =
  f_id :: uuid
  f_flight_number :: string
  f_airline :: string
  f_origin :: string
  f_destination :: string
  f_status :: flight_status
  f_scheduled_departure :: timestamptz
  f_scheduled_arrival :: timestamptz
  f_actual_departure :: "timestamptz option"
  f_actual_arrival :: "timestamptz option"
  f_runway_id :: "uuid option"
  f_gate :: "string option"
  f_aircraft_type :: string
  f_capacity :: int
  f_created_by :: "uuid option"
  f_notes :: "string option"

record passenger =
  p_id :: uuid
  p_flight_id :: uuid
  p_first_name :: string
  p_last_name :: string
  p_passport_number :: string
  p_seat_number :: "string option"
  p_ticket_id :: string
  p_boarding_status :: passenger_boarding_status
  p_nationality :: string

record activity =
  l_id :: uuid
  l_user_id :: "uuid option"
  l_action :: string
  l_entity_type :: string
  l_entity_id :: "uuid option"
  l_details :: "(string \<times> string) list"

record alert =
  a_id :: uuid
  a_title :: string
  a_message :: string
  a_severity :: alert_severity
  a_flight_id :: "uuid option"
  a_runway_id :: "uuid option"
  a_is_active :: bool
  a_is_acknowledged :: bool
  a_acknowledged_by :: "uuid option"
  a_acknowledged_at :: "timestamptz option"
  a_created_by :: "uuid option"

record db =
  user_roles :: "user_role list"
  runways :: "runway list"
  flights :: "flight list"
  passengers :: "passenger list"
  activity_log :: "activity list"
  alerts :: "alert list"

section \<open>Row-level security policies\<close>

text \<open>
  Every table has row-level security enabled, and every policy is permissive and granted
  to \<^verbatim>\<open>authenticated\<close>. A policy is kept as data: its name, table, command, and its
  \<^verbatim>\<open>USING\<close> and \<^verbatim>\<open>WITH CHECK\<close> expressions.
\<close>

datatype tbl =
  T_profiles | T_user_roles | T_runways | T_flights | T_passengers | T_activity_log | T_alerts

datatype sql_cmd = Select | Insert | Update | Delete

datatype policy_cmd = For_All | For sql_cmd

datatype pexpr =
  P_true
  | P_has_role app_role
  | P_or pexpr pexpr
  | P_uid_is_id
  | P_uid_is_user_id

record policy =
  pol_name :: string
  pol_table :: tbl
  pol_cmd :: policy_cmd
  pol_using :: "pexpr option"
  pol_check :: "pexpr option"

definition mk_policy ::
  "string \<Rightarrow> tbl \<Rightarrow> policy_cmd \<Rightarrow> pexpr option \<Rightarrow> pexpr option \<Rightarrow> policy" where
  "mk_policy n t c u w =
     \<lparr>pol_name = n, pol_table = t, pol_cmd = c, pol_using = u, pol_check = w\<rparr>"

definition admin_or_atc :: pexpr where
  "admin_or_atc = P_or (P_has_role admin) (P_has_role atc)"

definition policies :: "policy list" where
  "policies =
    [ mk_policy ''Users can view all profiles'' T_profiles (For Select) (Some P_true) None,
      mk_policy ''Users can update own profile'' T_profiles (For Update) (Some P_uid_is_id) None,
      mk_policy ''Users can insert own profile'' T_profiles (For Insert) None (Some P_uid_is_id),
      mk_policy ''Users can view roles'' T_user_roles (For Select) (Some P_true) None,
      mk_policy ''Admins can manage roles'' T_user_roles For_All (Some (P_has_role admin)) None,
      mk_policy ''All authenticated can view runways'' T_runways (For Select) (Some P_true) None,
      mk_policy ''Admin and ATC can manage runways'' T_runways For_All (Some admin_or_atc) None,
      mk_policy ''All authenticated can view flights'' T_flights (For Select) (Some P_true) None,
      mk_policy ''Admin and ATC can manage flights'' T_flights For_All (Some admin_or_atc) None,
      mk_policy ''Staff can update flight status'' T_flights (For Update)
        (Some (P_has_role staff)) None,
      mk_policy ''All authenticated can view passengers'' T_passengers (For Select)
        (Some P_true) None,
      mk_policy ''Admin and staff can manage passengers'' T_passengers For_All
        (Some (P_or (P_or (P_has_role admin) (P_has_role staff)) (P_has_role atc))) None,
      mk_policy ''All authenticated can view activity'' T_activity_log (For Select)
        (Some P_true) None,
      mk_policy ''All authenticated can insert activity'' T_activity_log (For Insert)
        None (Some P_uid_is_user_id),
      mk_policy ''All authenticated can view alerts'' T_alerts (For Select) (Some P_true) None,
      mk_policy ''Admin and ATC can manage alerts'' T_alerts For_All (Some admin_or_atc) None,
      mk_policy ''Staff can insert alerts'' T_alerts (For Insert) None
        (Some (P_or (P_or (P_has_role admin) (P_has_role atc)) (P_has_role staff))) ]"

text \<open>
  \<^verbatim>\<open>has_role(_user_id, _role)\<close>: some row of \<^verbatim>\<open>user_roles\<close> carries the pair.
  \<^verbatim>\<open>get_user_role(_user_id)\<close>: the role of the first such row (\<^verbatim>\<open>LIMIT 1\<close>).
\<close>

definition has_role :: "user_role list \<Rightarrow> uuid \<Rightarrow> app_role \<Rightarrow> bool" where
  "has_role urs u ro = list_ex (\<lambda>r. ur_user_id r = u \<and> ur_role r = ro) urs"

definition get_user_role :: "user_role list \<Rightarrow> uuid \<Rightarrow> app_role option" where
  "get_user_role urs u = map_option ur_role (find (\<lambda>r. ur_user_id r = u) urs)"

text \<open>
  The row a policy expression is evaluated on is seen through the two columns the
  expressions mention: \<^verbatim>\<open>id\<close> and \<^verbatim>\<open>user_id\<close>.
\<close>

record row_keys =
  rk_id :: "uuid option"
  rk_user_id :: "uuid option"

fun eval_pexpr :: "user_role list \<Rightarrow> uuid \<Rightarrow> row_keys \<Rightarrow> pexpr \<Rightarrow> bool" where
  "eval_pexpr urs uid rk P_true = True"
| "eval_pexpr urs uid rk (P_has_role ro) = has_role urs uid ro"
| "eval_pexpr urs uid rk (P_or a b) = (eval_pexpr urs uid rk a \<or> eval_pexpr urs uid rk b)"
| "eval_pexpr urs uid rk P_uid_is_id = (rk_id rk = Some uid)"
| "eval_pexpr urs uid rk P_uid_is_user_id = (rk_user_id rk = Some uid)"

text \<open>
  PostgreSQL's rule for permissive policies: the policies of the table whose command is
  \<^verbatim>\<open>ALL\<close> or the command at hand apply, and one of them has to accept the row. An
  existing row (select, update, delete) is tested with \<^verbatim>\<open>USING\<close>; a new row (insert,
  update) with \<^verbatim>\<open>WITH CHECK\<close>, which defaults to the policy's \<^verbatim>\<open>USING\<close> expression
  when the policy gives none.
\<close>

definition applies :: "tbl \<Rightarrow> sql_cmd \<Rightarrow> policy \<Rightarrow> bool" where
  "applies t c p = (pol_table p = t \<and> (pol_cmd p = For_All \<or> pol_cmd p = For c))"

definition rls_using :: "user_role list \<Rightarrow> uuid \<Rightarrow> tbl \<Rightarrow> sql_cmd \<Rightarrow> row_keys \<Rightarrow> bool" where
  "rls_using urs uid t c rk =
     list_ex (\<lambda>p. applies t c p \<and>
        (case pol_using p of None \<Rightarrow> False | Some e \<Rightarrow> eval_pexpr urs uid rk e)) policies"

definition rls_check :: "user_role list \<Rightarrow> uuid \<Rightarrow> tbl \<Rightarrow> sql_cmd \<Rightarrow> row_keys \<Rightarrow> bool" where
  "rls_check urs uid t c rk =
     list_ex (\<lambda>p. applies t c p \<and>
        (case pol_check p of
           Some e \<Rightarrow> eval_pexpr urs uid rk e
         | None \<Rightarrow> (case pol_using p of None \<Rightarrow> False | Some e \<Rightarrow> eval_pexpr urs uid rk e)))
       policies"

definition rls_permits :: "user_role list \<Rightarrow> uuid \<Rightarrow> tbl \<Rightarrow> sql_cmd \<Rightarrow> row_keys \<Rightarrow> bool" where
  "rls_permits urs uid t c rk =
     (case c of
        Select \<Rightarrow> rls_using urs uid t Select rk
      | Insert \<Rightarrow> rls_check urs uid t Insert rk
      | Update \<Rightarrow> rls_using urs uid t Update rk \<and> rls_check urs uid t Update rk
      | Delete \<Rightarrow> rls_using urs uid t Delete rk)"

section \<open>The store as the handlers reach it\<close>

text \<open>
  A handler sends one request per \<^verbatim>\<open>supabase.from(..)\<close> call and reads back
  \<^verbatim>\<open>{ error }\<close>. What lies outside the program is gathered in an environment: whether
  the request to a table reaches the store (\<open>net\<close>), the clock read by
  \<^verbatim>\<open>new Date()\<close>, the identifier \<^verbatim>\<open>gen_random_uuid()\<close> yields for a row inserted
  into a table, the value of \<^verbatim>\<open>md5(random()::text)\<close> at that insert, and the place
  of a flight row in the table's storage (\<open>heap_position\<close>), which is the order a select
  without \<^verbatim>\<open>ORDER BY\<close> returns rows in. The clock is taken to read a time in the
  years 1 to 9999, so \<^verbatim>\<open>new Date().toISOString()\<close> gives a text the store accepts.
\<close>

datatype request =
  Req_user_roles | Req_runways | Req_flights | Req_passengers | Req_activity_log | Req_alerts

record env =
  net :: "request \<Rightarrow> bool"
  now :: timestamptz
  gen_random_uuid :: "request \<Rightarrow> uuid"
  md5_random :: string
  heap_position :: "uuid \<Rightarrow> nat"

datatype error =
  StoreUnavailable
  | RlsViolation
  | UniqueViolation
  | ForeignKeyViolation
  | NoArbiterIndex
  | Validation_Error
  | Cannot_Set_Available
  | RangeError
  | Datetime_Rejected

definition keys_of_id :: "uuid \<Rightarrow> row_keys" where
  "keys_of_id i = \<lparr>rk_id = Some i, rk_user_id = None\<rparr>"

text \<open>
  \<^verbatim>\<open>.update(patch).eq("id", x)\<close>. Rows the \<^verbatim>\<open>USING\<close> test hides are skipped without
  an error: the statement then changes nothing and the reply carries no error. A changed row
  that fails \<^verbatim>\<open>WITH CHECK\<close> aborts the statement. The patches sent through these three
  functions write no column under a unique or foreign-key constraint other than a
  \<^verbatim>\<open>runway_id\<close> set to null, so no constraint is re-examined.
\<close>

definition update_runways ::
  "env \<Rightarrow> uuid \<Rightarrow> uuid \<Rightarrow> (runway \<Rightarrow> runway) \<Rightarrow> db \<Rightarrow> error option \<times> db" where
  "update_runways e uid rid patch d =
     (if \<not> net e Req_runways then (Some StoreUnavailable, d)
      else
        let hit = (\<lambda>r. r_id r = rid \<and>
                     rls_using (user_roles d) uid T_runways Update (keys_of_id (r_id r)))
        in if list_ex (\<lambda>r. hit r \<and>
                 \<not> rls_check (user_roles d) uid T_runways Update (keys_of_id (r_id (patch r))))
               (runways d)
           then (Some RlsViolation, d)
           else (None, d\<lparr>runways := map (\<lambda>r. if hit r then patch r else r) (runways d)\<rparr>))"

definition update_flights ::
  "env \<Rightarrow> uuid \<Rightarrow> uuid \<Rightarrow> (flight \<Rightarrow> flight) \<Rightarrow> db \<Rightarrow> error option \<times> db" where
  "update_flights e uid fid patch d =
     (if \<not> net e Req_flights then (Some StoreUnavailable, d)
      else
        let hit = (\<lambda>f. f_id f = fid \<and>
                     rls_using (user_roles d) uid T_flights Update (keys_of_id (f_id f)))
        in if list_ex (\<lambda>f. hit f \<and>
                 \<not> rls_check (user_roles d) uid T_flights Update (keys_of_id (f_id (patch f))))
               (flights d)
           then (Some RlsViolation, d)
           else (None, d\<lparr>flights := map (\<lambda>f. if hit f then patch f else f) (flights d)\<rparr>))"

definition update_alerts ::
  "env \<Rightarrow> uuid \<Rightarrow> uuid \<Rightarrow> (alert \<Rightarrow> alert) \<Rightarrow> db \<Rightarrow> error option \<times> db" where
  "update_alerts e uid aid patch d =
     (if \<not> net e Req_alerts then (Some StoreUnavailable, d)
      else
        let hit = (\<lambda>a. a_id a = aid \<and>
                     rls_using (user_roles d) uid T_alerts Update (keys_of_id (a_id a)))
        in if list_ex (\<lambda>a. hit a \<and>
                 \<not> rls_check (user_roles d) uid T_alerts Update (keys_of_id (a_id (patch a))))
               (alerts d)
           then (Some RlsViolation, d)
           else (None, d\<lparr>alerts := map (\<lambda>a. if hit a then patch a else a) (alerts d)\<rparr>))"

text \<open>
  Times computed by a handler. A \<^verbatim>\<open>Date\<close> holds at most 8640000000000000 milliseconds
  either side of the epoch; beyond that it is invalid and \<^verbatim>\<open>toISOString\<close> throws a
  \<^verbatim>\<open>RangeError\<close>. \<^verbatim>\<open>toISOString\<close> prints the years 0 to 9999 with four digits and
  every other year in the expanded form with a sign and six digits, which the store does
  not read as a \<^verbatim>\<open>timestamptz\<close>; nor does the store have a year 0. So the store reads
  the times of the years 1 to 9999 (\<open>year_1_to_9999\<close>, in milliseconds), and refuses a
  statement that carries any other time, whatever rows it names.
\<close>

definition date_valid :: "timestamptz \<Rightarrow> bool" where
  "date_valid t = (- 8640000000000000 \<le> t \<and> t \<le> 8640000000000000)"

definition year_1_to_9999 :: "timestamptz \<Rightarrow> bool" where
  "year_1_to_9999 t = (- 62135596800000 \<le> t \<and> t \<le> 253402300799999)"

definition update_flights_timed ::
  "env \<Rightarrow> uuid \<Rightarrow> uuid \<Rightarrow> timestamptz list \<Rightarrow> (flight \<Rightarrow> flight) \<Rightarrow> db \<Rightarrow> error option \<times> db"
  where
  "update_flights_timed e uid fid ts patch d =
     (if \<not> net e Req_flights then (Some StoreUnavailable, d)
      else if list_all year_1_to_9999 ts then update_flights e uid fid patch d
      else (Some Datetime_Rejected, d))"

text \<open>
  \<^verbatim>\<open>.insert([row])\<close>: the new row has to pass \<^verbatim>\<open>WITH CHECK\<close>, its primary key must
  be new, and its references must exist. References to \<^verbatim>\<open>auth.users\<close> are not examined:
  that table belongs to the identity service.
\<close>

definition insert_activity_log :: "env \<Rightarrow> uuid \<Rightarrow> activity \<Rightarrow> db \<Rightarrow> error option \<times> db" where
  "insert_activity_log e uid row d =
     (if \<not> net e Req_activity_log then (Some StoreUnavailable, d)
      else if \<not> rls_check (user_roles d) uid T_activity_log Insert
                 \<lparr>rk_id = Some (l_id row), rk_user_id = l_user_id row\<rparr>
        then (Some RlsViolation, d)
      else if list_ex (\<lambda>x. l_id x = l_id row) (activity_log d) then (Some UniqueViolation, d)
      else (None, d\<lparr>activity_log := activity_log d @ [row]\<rparr>))"

definition insert_alerts :: "env \<Rightarrow> uuid \<Rightarrow> alert \<Rightarrow> db \<Rightarrow> error option \<times> db" where
  "insert_alerts e uid row d =
     (if \<not> net e Req_alerts then (Some StoreUnavailable, d)
      else if \<not> rls_check (user_roles d) uid T_alerts Insert (keys_of_id (a_id row))
        then (Some RlsViolation, d)
      else if list_ex (\<lambda>x. a_id x = a_id row) (alerts d) then (Some UniqueViolation, d)
      else if (case a_flight_id row of None \<Rightarrow> False
               | Some fid \<Rightarrow> \<not> list_ex (\<lambda>f. f_id f = fid) (flights d))
        then (Some ForeignKeyViolation, d)
      else if (case a_runway_id row of None \<Rightarrow> False
               | Some rid \<Rightarrow> \<not> list_ex (\<lambda>r. r_id r = rid) (runways d))
        then (Some ForeignKeyViolation, d)
      else (None, d\<lparr>alerts := alerts d @ [row]\<rparr>))"

subsection \<open>lib/supabase.ts\<close>

text \<open>
  \<^verbatim>\<open>logActivity\<close> awaits the insert and drops its reply, so it never reports a failure.
  The session user is the \<^verbatim>\<open>auth.uid()\<close> of the request; every caller passes
  \<^verbatim>\<open>user!.id\<close> as \<open>userId\<close>.
\<close>

definition logActivity ::
  "env \<Rightarrow> uuid \<Rightarrow> uuid \<Rightarrow> string \<Rightarrow> string \<Rightarrow> uuid option \<Rightarrow> (string \<times> string) list \<Rightarrow> db \<Rightarrow> db"
  where
  "logActivity e session userId action entityType entityId details d =
     snd (insert_activity_log e session
       \<lparr>l_id = gen_random_uuid e Req_activity_log, l_user_id = Some userId, l_action = action,
        l_entity_type = entityType, l_entity_id = entityId, l_details = details\<rparr> d)"

section \<open>Text of enum values and numbers\<close>

fun flight_status_text :: "flight_status \<Rightarrow> string" where
  "flight_status_text scheduled = ''scheduled''"
| "flight_status_text boarding = ''boarding''"
| "flight_status_text delayed = ''delayed''"
| "flight_status_text departed = ''departed''"
| "flight_status_text landed = ''landed''"
| "flight_status_text cancelled = ''cancelled''"
| "flight_status_text emergency = ''emergency''"

fun runway_status_text :: "runway_status \<Rightarrow> string" where
  "runway_status_text available = ''available''"
| "runway_status_text occupied = ''occupied''"
| "runway_status_text maintenance = ''maintenance''"
| "runway_status_text closed = ''closed''"

text \<open>The decimal text a template literal gives a non-negative whole number.\<close>

function show_nat :: "nat \<Rightarrow> string" where
  "show_nat n =
     (if n < 10 then [''0123456789'' ! n]
      else show_nat (n div 10) @ [''0123456789'' ! (n mod 10)])"
  by pat_completeness auto
termination
  by (relation "measure (\<lambda>n. n)") auto

declare show_nat.simps [simp del]

text \<open>\<^verbatim>\<open>s || alt\<close> on a string: the empty string is falsy.\<close>

definition or_else :: "string \<Rightarrow> 'a \<Rightarrow> (string \<Rightarrow> 'a) \<Rightarrow> 'a" where
  "or_else s alt k = (if s = [] then alt else k s)"

section \<open>pages/ATCPanel.tsx\<close>

datatype atc_action = landing | takeoff | delay | cancel | emergency_action

fun atc_action_text :: "atc_action \<Rightarrow> string" where
  "atc_action_text landing = ''landing''"
| "atc_action_text takeoff = ''takeoff''"
| "atc_action_text delay = ''delay''"
| "atc_action_text cancel = ''cancel''"
| "atc_action_text emergency_action = ''emergency''"

record pending_action =
  pa_flightId :: uuid
  pa_flightNumber :: string
  pa_action :: atc_action
  pa_newStatus :: flight_status
  pa_title :: string
  pa_description :: string

fun statusMap :: "atc_action \<Rightarrow> flight_status" where
  "statusMap landing = landed"
| "statusMap takeoff = departed"
| "statusMap delay = delayed"
| "statusMap cancel = cancelled"
| "statusMap emergency_action = emergency"

fun titleMap :: "atc_action \<Rightarrow> string" where
  "titleMap landing = ''Approve Landing''"
| "titleMap takeoff = ''Approve Takeoff''"
| "titleMap delay = ''Delay Flight''"
| "titleMap cancel = ''Cancel Flight''"
| "titleMap emergency_action = ''Activate Emergency''"

fun descMap :: "string \<Rightarrow> atc_action \<Rightarrow> string" where
  "descMap fn landing = ''Approve landing clearance for '' @ fn @ ''?''"
| "descMap fn takeoff = ''Approve takeoff clearance for '' @ fn @ ''?''"
| "descMap fn delay = ''Mark '' @ fn @ '' as delayed?''"
| "descMap fn cancel = ''Cancel flight '' @ fn @ ''? This will release the runway.''"
| "descMap fn emergency_action =
     ''Declare EMERGENCY for '' @ fn @ ''? This will trigger alerts.''"

text \<open>
  \<^verbatim>\<open>confirmAction\<close> fills \<^verbatim>\<open>pendingAction\<close>; for a delay it opens the delay dialog
  instead (\<^verbatim>\<open>setShowDelay(flight)\<close>) and leaves \<^verbatim>\<open>pendingAction\<close> empty.
\<close>

definition confirmAction :: "flight \<Rightarrow> atc_action \<Rightarrow> pending_action option" where
  "confirmAction fl action =
     (if action = delay then None
      else Some \<lparr>pa_flightId = f_id fl, pa_flightNumber = f_flight_number fl,
                 pa_action = action, pa_newStatus = statusMap action,
                 pa_title = titleMap action,
                 pa_description = descMap (f_flight_number fl) action\<rparr>)"

text \<open>
  Awaiting a request. On the plain store, a request is the store's function applied to the
  tables. On the recorded store the tables come with the list of the requests sent so far,
  in the order they were sent, and each request is added to it when it is sent, whether or
  not it reaches the store.
\<close>

definition send_plain ::
  "request \<Rightarrow> (db \<Rightarrow> error option \<times> db) \<Rightarrow> db \<Rightarrow> error option \<times> db" where
  "send_plain q call d = call d"


text \<open>
  \<^verbatim>\<open>executeAction\<close>, written once for both stores: \<open>send\<close> is the way a request is
  awaited. The arguments \<open>flights_state\<close>, \<open>emergencyNote\<close> and \<open>pendingAction\<close> are
  the component's state: \<open>flights_state\<close> is the list the panel last fetched, not the
  table. The reply of the runway update is not read, nor is that of \<^verbatim>\<open>logActivity\<close> or
  of the alert insert.
\<close>

definition executeAction_on ::
  "(request \<Rightarrow> (db \<Rightarrow> error option \<times> db) \<Rightarrow> 's \<Rightarrow> error option \<times> 's)
     \<Rightarrow> env \<Rightarrow> uuid \<Rightarrow> flight list \<Rightarrow> string \<Rightarrow> pending_action option \<Rightarrow> 's
     \<Rightarrow> error option \<times> 's"
  where
  "executeAction_on send e user flights_state emergencyNote pendingAction s =
     (case pendingAction of
        None \<Rightarrow> (None, s)
      | Some pa \<Rightarrow>
          let flightId = pa_flightId pa;
              flightNumber = pa_flightNumber pa;
              newStatus = pa_newStatus pa;
              updates0 = (\<lambda>g. g\<lparr>f_status := newStatus\<rparr>);
              updates1 = (if newStatus = departed
                          then (\<lambda>g. (updates0 g)\<lparr>f_actual_departure := Some (now e)\<rparr>)
                          else updates0);
              updates2 = (if newStatus = landed
                          then (\<lambda>g. (updates1 g)\<lparr>f_actual_arrival := Some (now e)\<rparr>)
                          else updates1);
              release = (if newStatus \<in> {landed, cancelled, departed}
                         then (case find (\<lambda>fl. f_id fl = flightId) flights_state of
                                 None \<Rightarrow> None
                               | Some f \<Rightarrow> f_runway_id f)
                         else None);
              s1 = (case release of
                      None \<Rightarrow> s
                    | Some rid \<Rightarrow>
                        snd (send Req_runways
                               (update_runways e user rid (\<lambda>r. r\<lparr>r_status := available\<rparr>)) s));
              updates = (case release of
                           None \<Rightarrow> updates2
                         | Some rid \<Rightarrow> (\<lambda>g. (updates2 g)\<lparr>f_runway_id := None\<rparr>));
              (err, s2) = send Req_flights (update_flights e user flightId updates) s1
          in case err of
               Some x \<Rightarrow> (Some x, s2)
             | None \<Rightarrow>
                 let s3 = snd (send Req_activity_log
                            (\<lambda>d. (None, logActivity e user user
                                    (''ATC: '' @ pa_title pa @ '' for '' @ flightNumber)
                                    ''flight'' (Some flightId)
                                    [(''action'', atc_action_text (pa_action pa))] d)) s2)
                 in if newStatus \<in> {emergency, cancelled}
                    then (None, snd (send Req_alerts (insert_alerts e user
                           \<lparr>a_id = gen_random_uuid e Req_alerts,
                            a_title = (if newStatus = emergency
                                       then ''EMERGENCY: '' @ flightNumber
                                       else ''Flight Cancelled: '' @ flightNumber),
                            a_message = or_else emergencyNote
                               (flightNumber @ '' status changed to '' @
                                flight_status_text newStatus) (\<lambda>s. s),
                            a_severity = (if newStatus = emergency
                                          then sev_emergency else sev_critical),
                            a_flight_id = Some flightId, a_runway_id = None,
                            a_is_active = True, a_is_acknowledged = False,
                            a_acknowledged_by = None, a_acknowledged_at = None,
                            a_created_by = Some user\<rparr>) s3))
                    else (None, s3))"

definition executeAction ::
  "env \<Rightarrow> uuid \<Rightarrow> flight list \<Rightarrow> string \<Rightarrow> pending_action option \<Rightarrow> db \<Rightarrow> error option \<times> db"
  where
  "executeAction = executeAction_on send_plain"


text \<open>
  \<^verbatim>\<open>handleDelay\<close>. \<open>showDelay\<close> is the flight the dialog was opened on, as the panel
  holds it; \<open>delayMinutes\<close> starts at 30 and \<open>delayReason\<close> at the empty string. Both
  new times are computed from the panel's copy and printed by \<^verbatim>\<open>toISOString\<close> before
  the request is built, so a time no \<^verbatim>\<open>Date\<close> holds ends the handler with a
  \<^verbatim>\<open>RangeError\<close> and nothing is sent.
\<close>

definition delayMinutes_default :: nat where
  "delayMinutes_default = 30"

definition handleDelay ::
  "env \<Rightarrow> uuid \<Rightarrow> nat \<Rightarrow> string \<Rightarrow> flight option \<Rightarrow> db \<Rightarrow> error option \<times> db" where
  "handleDelay e user delayMinutes delayReason showDelay d =
     (case showDelay of
        None \<Rightarrow> (None, d)
      | Some f \<Rightarrow>
          let newDep = f_scheduled_departure f + int delayMinutes * 60000;
              newArr = f_scheduled_arrival f + int delayMinutes * 60000
          in if date_valid newDep \<and> date_valid newArr
          then
          let (err, d1) = update_flights_timed e user (f_id f) [newDep, newArr]
                 (\<lambda>g. g\<lparr>f_status := delayed, f_scheduled_departure := newDep,
                         f_scheduled_arrival := newArr,
                         f_notes := or_else delayReason (f_notes f) Some\<rparr>) d
          in case err of
               Some x \<Rightarrow> (Some x, d1)
             | None \<Rightarrow>
                 let d2 = logActivity e user user
                            (''Delayed '' @ f_flight_number f @ '' by '' @
                             show_nat delayMinutes @ '' min: '' @ delayReason)
                            ''flight'' (Some (f_id f)) [] d1
                 in (None, snd (insert_alerts e user
                       \<lparr>a_id = gen_random_uuid e Req_alerts,
                        a_title = ''Flight Delayed: '' @ f_flight_number f,
                        a_message = f_flight_number f @ '' delayed by '' @
                           show_nat delayMinutes @ '' minutes. Reason: '' @
                           or_else delayReason ''Not specified'' (\<lambda>s. s),
                        a_severity = sev_warning,
                        a_flight_id = Some (f_id f), a_runway_id = None,
                        a_is_active = True, a_is_acknowledged = False,
                        a_acknowledged_by = None, a_acknowledged_at = None,
                        a_created_by = Some user\<rparr> d2))
          else (Some RangeError, d))"

section \<open>pages/Flights.tsx\<close>

text \<open>
  \<^verbatim>\<open>handleStatusChange\<close> of the flights page, the handler of the status drop-down of
  a row. \<open>flights_state\<close> is the list the page last fetched; it only names the flight in
  the log text (\<^verbatim>\<open>${f?.flight_number}\<close> prints \<^verbatim>\<open>undefined\<close> for a missing one).
\<close>

definition Flights_handleStatusChange ::
  "env \<Rightarrow> uuid \<Rightarrow> flight list \<Rightarrow> uuid \<Rightarrow> flight_status \<Rightarrow> db \<Rightarrow> error option \<times> db" where
  "Flights_handleStatusChange e user flights_state flightId newStatus d =
     (let f = find (\<lambda>fl. f_id fl = flightId) flights_state;
          (err, d1) = update_flights e user flightId (\<lambda>g. g\<lparr>f_status := newStatus\<rparr>) d
      in case err of
           Some x \<Rightarrow> (Some x, d1)
         | None \<Rightarrow>
             (None, logActivity e user user
                (''Changed '' @ (case f of None \<Rightarrow> ''undefined'' | Some fl \<Rightarrow> f_flight_number fl)
                   @ '' status to '' @ flight_status_text newStatus)
                ''flight'' (Some flightId) [] d1))"

section \<open>pages/Runways.tsx\<close>

record assigned_flight =
  af_id :: uuid
  af_flight_number :: string
  af_airline :: string
  af_status :: flight_status

text \<open>
  \<^verbatim>\<open>fetchAssignedFlights\<close>: the flights with a runway and a status outside
  landed, cancelled, departed, keyed by runway (a later flight replaces an earlier one on
  the same runway). The request has no \<^verbatim>\<open>ORDER BY\<close>: the rows come in the order of
  their place in storage, which an update of a row may change. A request that fails gives
  \<^verbatim>\<open>data = null\<close>, hence the empty map. The select policy of flights is
  \<^verbatim>\<open>USING (true)\<close>.
\<close>

definition select_assigned :: "env \<Rightarrow> uuid \<Rightarrow> db \<Rightarrow> flight list option" where
  "select_assigned e uid d =
     (if \<not> net e Req_flights then None
      else Some (sort_key (\<lambda>f. heap_position e (f_id f))
                  (filter (\<lambda>f. rls_using (user_roles d) uid T_flights Select (keys_of_id (f_id f))
                         \<and> f_runway_id f \<noteq> None
                         \<and> f_status f \<notin> {landed, cancelled, departed}) (flights d))))"

fun assigned_map :: "flight list \<Rightarrow> (uuid \<rightharpoonup> assigned_flight) \<Rightarrow> (uuid \<rightharpoonup> assigned_flight)" where
  "assigned_map [] m = m"
| "assigned_map (f # fs) m =
     assigned_map fs
       (case f_runway_id f of
          None \<Rightarrow> m
        | Some rid \<Rightarrow> m(rid \<mapsto> \<lparr>af_id = f_id f, af_flight_number = f_flight_number f,
                               af_airline = f_airline f, af_status = f_status f\<rparr>))"

definition fetchAssignedFlights :: "env \<Rightarrow> uuid \<Rightarrow> db \<Rightarrow> (uuid \<rightharpoonup> assigned_flight)" where
  "fetchAssignedFlights e uid d =
     assigned_map (case select_assigned e uid d of None \<Rightarrow> [] | Some rows \<Rightarrow> rows) Map.empty"

text \<open>
  \<^verbatim>\<open>handleSave\<close> of the runways page, behind the add and edit dialogs. The payload
  carries the name, which is under a unique constraint, so the store looks at the names
  again. The form's \<open>rf_status\<close> is sent as it is: this path asks nothing about assigned
  flights.
\<close>

record runway_form =
  rf_name :: string
  rf_length_meters :: int
  rf_status :: runway_status
  rf_surface_type :: string
  rf_notes :: string

definition update_runways_named ::
  "env \<Rightarrow> uuid \<Rightarrow> uuid \<Rightarrow> (runway \<Rightarrow> runway) \<Rightarrow> db \<Rightarrow> error option \<times> db" where
  "update_runways_named e uid rid patch d =
     (let rows = map (\<lambda>r. if r_id r = rid \<and>
                             rls_using (user_roles d) uid T_runways Update (keys_of_id (r_id r))
                           then patch r else r) (runways d)
      in if net e Req_runways \<and> \<not> distinct (map r_name rows) then (Some UniqueViolation, d)
         else update_runways e uid rid patch d)"

definition insert_runways :: "env \<Rightarrow> uuid \<Rightarrow> runway \<Rightarrow> db \<Rightarrow> error option \<times> db" where
  "insert_runways e uid row d =
     (if \<not> net e Req_runways then (Some StoreUnavailable, d)
      else if \<not> rls_check (user_roles d) uid T_runways Insert (keys_of_id (r_id row))
        then (Some RlsViolation, d)
      else if list_ex (\<lambda>x. r_id x = r_id row \<or> r_name x = r_name row) (runways d)
        then (Some UniqueViolation, d)
      else (None, d\<lparr>runways := runways d @ [row]\<rparr>))"

definition Runways_handleSave ::
  "env \<Rightarrow> uuid \<Rightarrow> runway_form \<Rightarrow> uuid option \<Rightarrow> db \<Rightarrow> error option \<times> db" where
  "Runways_handleSave e user form editId d =
     (if rf_name form = [] then (Some Validation_Error, d)
      else
        case editId of
          Some rid \<Rightarrow>
            let (err, d1) = update_runways_named e user rid
                  (\<lambda>r. r\<lparr>r_name := rf_name form, r_length_meters := rf_length_meters form,
                          r_status := rf_status form, r_surface_type := rf_surface_type form,
                          r_notes := or_else (rf_notes form) None Some\<rparr>) d
            in (case err of
                  Some x \<Rightarrow> (Some x, d1)
                | None \<Rightarrow>
                    (None, logActivity e user user (''Updated runway '' @ rf_name form)
                             ''runway'' (Some rid) [] d1))
        | None \<Rightarrow>
            let (err, d1) = insert_runways e user
                  \<lparr>r_id = gen_random_uuid e Req_runways, r_name = rf_name form,
                   r_length_meters = rf_length_meters form, r_status = rf_status form,
                   r_surface_type = rf_surface_type form,
                   r_notes = or_else (rf_notes form) None Some\<rparr> d
            in (case err of
                  Some x \<Rightarrow> (Some x, d1)
                | None \<Rightarrow>
                    (None, logActivity e user user (''Created runway '' @ rf_name form)
                             ''runway'' None [] d1)))"

text \<open>
  \<^verbatim>\<open>handleStatusChange\<close> of the runways page. \<open>runways_state\<close> and
  \<open>assignedFlights\<close> are the component's state; \<open>assignedFlights\<close> starts as the empty
  map and is replaced whenever \<^verbatim>\<open>fetchAssignedFlights\<close> completes. The refusal shows
  the toast \<^verbatim>\<open>Cannot Set Available\<close> and sends nothing to the store.
\<close>

definition assignedFlights_initial :: "uuid \<rightharpoonup> assigned_flight" where
  "assignedFlights_initial = Map.empty"

definition Runways_handleStatusChange ::
  "env \<Rightarrow> uuid \<Rightarrow> runway list \<Rightarrow> (uuid \<rightharpoonup> assigned_flight) \<Rightarrow> uuid \<Rightarrow> runway_status \<Rightarrow> db
     \<Rightarrow> error option \<times> db" where
  "Runways_handleStatusChange e user runways_state assignedFlights runwayId newStatus d =
     (let r = find (\<lambda>r. r_id r = runwayId) runways_state
      in if newStatus = available \<and> assignedFlights runwayId \<noteq> None
         then (Some Cannot_Set_Available, d)
         else
           let (err, d1) = update_runways e user runwayId (\<lambda>x. x\<lparr>r_status := newStatus\<rparr>) d
           in case err of
                Some x \<Rightarrow> (Some x, d1)
              | None \<Rightarrow>
                  (None, logActivity e user user
                     (''Changed '' @ (case r of None \<Rightarrow> ''undefined'' | Some x \<Rightarrow> r_name x)
                        @ '' status to '' @ runway_status_text newStatus)
                     ''runway'' (Some runwayId) [] d1))"

section \<open>pages/Alerts.tsx\<close>

text \<open>
  \<^verbatim>\<open>handleAcknowledge\<close>. The page renders the button that calls it only on alerts whose
  fetched copy has \<^verbatim>\<open>is_acknowledged\<close> false (\<open>acknowledge_offered\<close>); the handler
  itself sends the update whatever the alert holds.
\<close>

definition acknowledge_offered :: "alert list \<Rightarrow> uuid \<Rightarrow> bool" where
  "acknowledge_offered alerts_state alertId =
     list_ex (\<lambda>a. a_id a = alertId \<and> \<not> a_is_acknowledged a) alerts_state"

definition handleAcknowledge :: "env \<Rightarrow> uuid \<Rightarrow> uuid \<Rightarrow> db \<Rightarrow> error option \<times> db" where
  "handleAcknowledge e user alertId d =
     (let (err, d1) = update_alerts e user alertId
                        (\<lambda>a. a\<lparr>a_is_acknowledged := True, a_acknowledged_by := Some user,
                                a_acknowledged_at := Some (now e), a_is_active := False\<rparr>) d
      in case err of
           Some x \<Rightarrow> (Some x, d1)
         | None \<Rightarrow>
             (None, logActivity e user user ''Acknowledged alert'' ''alert'' (Some alertId) [] d1))"

section \<open>pages/Admin.tsx\<close>

text \<open>
  The unique indexes of \<^verbatim>\<open>user_roles\<close>: the primary key \<^verbatim>\<open>id\<close> and
  \<^verbatim>\<open>UNIQUE (user_id, role)\<close>.

  \<^verbatim>\<open>.upsert([row], { onConflict: cols })\<close> is
  \<^verbatim>\<open>INSERT .. ON CONFLICT (cols) DO UPDATE SET ..\<close>. PostgreSQL takes as arbiter a unique
  index over exactly the named columns and rejects the statement when the table has none.
  With an arbiter, a row that agrees with the new one on the arbiter's columns is
  overwritten by it (keeping its \<^verbatim>\<open>id\<close>, which the payload does not carry); otherwise the
  row is inserted, under the other unique indexes.
\<close>

datatype ur_column = C_id | C_user_id | C_role

definition user_roles_unique_indexes :: "ur_column list list" where
  "user_roles_unique_indexes = [[C_id], [C_user_id, C_role]]"

fun ur_agree_on :: "user_role \<Rightarrow> user_role \<Rightarrow> ur_column \<Rightarrow> bool" where
  "ur_agree_on x y C_id = (ur_id x = ur_id y)"
| "ur_agree_on x y C_user_id = (ur_user_id x = ur_user_id y)"
| "ur_agree_on x y C_role = (ur_role x = ur_role y)"

definition ur_conflict :: "ur_column list \<Rightarrow> user_role \<Rightarrow> user_role \<Rightarrow> bool" where
  "ur_conflict cols x y = list_all (ur_agree_on x y) cols"

definition upsert_user_roles ::
  "env \<Rightarrow> uuid \<Rightarrow> user_role \<Rightarrow> ur_column list \<Rightarrow> db \<Rightarrow> error option \<times> db" where
  "upsert_user_roles e uid row onConflict d =
     (if \<not> net e Req_user_roles then (Some StoreUnavailable, d)
      else if \<not> list_ex (\<lambda>ix. set ix = set onConflict) user_roles_unique_indexes
        then (Some NoArbiterIndex, d)
      else if \<not> rls_check (user_roles d) uid T_user_roles Insert
                 \<lparr>rk_id = Some (ur_id row), rk_user_id = Some (ur_user_id row)\<rparr>
        then (Some RlsViolation, d)
      else if list_ex (ur_conflict onConflict row) (user_roles d)
        then (if \<not> rls_permits (user_roles d) uid T_user_roles Update
                     \<lparr>rk_id = Some (ur_id row), rk_user_id = Some (ur_user_id row)\<rparr>
              then (Some RlsViolation, d)
              else (None, d\<lparr>user_roles :=
                      map (\<lambda>x. if ur_conflict onConflict row x
                               then x\<lparr>ur_user_id := ur_user_id row, ur_role := ur_role row\<rparr>
                               else x) (user_roles d)\<rparr>))
      else if list_ex (\<lambda>x. list_ex (\<lambda>ix. ur_conflict ix row x) user_roles_unique_indexes)
                (user_roles d)
        then (Some UniqueViolation, d)
      else (None, d\<lparr>user_roles := user_roles d @ [row]\<rparr>))"

text \<open>
  \<^verbatim>\<open>handleRoleChange\<close>: one upsert with \<^verbatim>\<open>onConflict: "user_id"\<close>; on success a toast
  and a refetch, and no call of \<^verbatim>\<open>logActivity\<close>.
\<close>

definition handleRoleChange :: "env \<Rightarrow> uuid \<Rightarrow> uuid \<Rightarrow> app_role \<Rightarrow> db \<Rightarrow> error option \<times> db" where
  "handleRoleChange e user userId newRole d =
     upsert_user_roles e user
       \<lparr>ur_id = gen_random_uuid e Req_user_roles, ur_user_id = userId, ur_role = newRole\<rparr>
       [C_user_id] d"

text \<open>
  A plain insert into \<^verbatim>\<open>user_roles\<close>, as the policy \<^verbatim>\<open>Admins can manage roles\<close> and the
  table's constraints admit it.
\<close>

definition insert_user_roles :: "env \<Rightarrow> uuid \<Rightarrow> user_role \<Rightarrow> db \<Rightarrow> error option \<times> db" where
  "insert_user_roles e uid row d =
     (if \<not> net e Req_user_roles then (Some StoreUnavailable, d)
      else if \<not> rls_check (user_roles d) uid T_user_roles Insert
                 \<lparr>rk_id = Some (ur_id row), rk_user_id = Some (ur_user_id row)\<rparr>
        then (Some RlsViolation, d)
      else if list_ex (\<lambda>x. list_ex (\<lambda>ix. ur_conflict ix row x) user_roles_unique_indexes)
                (user_roles d)
        then (Some UniqueViolation, d)
      else (None, d\<lparr>user_roles := user_roles d @ [row]\<rparr>))"

section \<open>Passengers: the ticket default and pages/Passengers.tsx\<close>

text \<open>
  The column default
  \<^verbatim>\<open>'TKT-' || upper(substr(md5(random()::text), 1, 8))\<close>.
  \<^verbatim>\<open>substr(s, start, count)\<close> counts characters from 1; \<^verbatim>\<open>upper\<close> maps the letters
  a to z. \<^verbatim>\<open>md5\<close> is PostgreSQL's: its value is taken from the environment, and
  \<open>is_md5_text\<close> says what every value of it looks like, 32 lower-case hexadecimal digits.
\<close>

definition substr :: "string \<Rightarrow> nat \<Rightarrow> nat \<Rightarrow> string" where
  "substr s start cnt = (if start = 0 then take (cnt - 1) s else take cnt (drop (start - 1) s))"

definition upper_char :: "char \<Rightarrow> char" where
  "upper_char c =
     (case map_of (zip ''abcdefghijklmnopqrstuvwxyz'' ''ABCDEFGHIJKLMNOPQRSTUVWXYZ'') c of
        None \<Rightarrow> c
      | Some u \<Rightarrow> u)"

definition upper :: "string \<Rightarrow> string" where
  "upper s = map upper_char s"

definition is_md5_text :: "string \<Rightarrow> bool" where
  "is_md5_text h = (length h = 32 \<and> list_all (\<lambda>c. c \<in> set ''0123456789abcdef'') h)"

definition ticket_id_default :: "env \<Rightarrow> string" where
  "ticket_id_default e = ''TKT-'' @ upper (substr (md5_random e) 1 8)"

text \<open>The pattern \<^verbatim>\<open>TKT-[A-Z0-9]{8}\<close>.\<close>

definition matches_ticket_pattern :: "string \<Rightarrow> bool" where
  "matches_ticket_pattern t =
     (take 4 t = ''TKT-'' \<and> length (drop 4 t) = 8 \<and>
      list_all (\<lambda>c. c \<in> set ''ABCDEFGHIJKLMNOPQRSTUVWXYZ0123456789'') (drop 4 t))"

text \<open>
  The store's side of the three statements the passengers page sends. The table has the
  primary key, \<^verbatim>\<open>UNIQUE\<close> on \<^verbatim>\<open>ticket_id\<close> and the reference to flights.
\<close>

definition insert_passengers :: "env \<Rightarrow> uuid \<Rightarrow> passenger \<Rightarrow> db \<Rightarrow> error option \<times> db" where
  "insert_passengers e uid row d =
     (if \<not> net e Req_passengers then (Some StoreUnavailable, d)
      else if \<not> rls_check (user_roles d) uid T_passengers Insert (keys_of_id (p_id row))
        then (Some RlsViolation, d)
      else if list_ex (\<lambda>x. p_id x = p_id row \<or> p_ticket_id x = p_ticket_id row) (passengers d)
        then (Some UniqueViolation, d)
      else if \<not> list_ex (\<lambda>f. f_id f = p_flight_id row) (flights d)
        then (Some ForeignKeyViolation, d)
      else (None, d\<lparr>passengers := passengers d @ [row]\<rparr>))"

definition update_passengers ::
  "env \<Rightarrow> uuid \<Rightarrow> uuid \<Rightarrow> (passenger \<Rightarrow> passenger) \<Rightarrow> db \<Rightarrow> error option \<times> db" where
  "update_passengers e uid pid patch d =
     (if \<not> net e Req_passengers then (Some StoreUnavailable, d)
      else
        let hit = (\<lambda>x. p_id x = pid \<and>
                     rls_using (user_roles d) uid T_passengers Update (keys_of_id (p_id x)));
            rows = map (\<lambda>x. if hit x then patch x else x) (passengers d)
        in if list_ex (\<lambda>x. hit x \<and>
                 \<not> rls_check (user_roles d) uid T_passengers Update (keys_of_id (p_id (patch x))))
               (passengers d)
           then (Some RlsViolation, d)
           else if \<not> distinct (map p_id rows) \<or> \<not> distinct (map p_ticket_id rows)
             then (Some UniqueViolation, d)
           else if list_ex (\<lambda>x. \<not> list_ex (\<lambda>f. f_id f = p_flight_id x) (flights d)) rows
             then (Some ForeignKeyViolation, d)
           else (None, d\<lparr>passengers := rows\<rparr>))"

definition delete_passengers :: "env \<Rightarrow> uuid \<Rightarrow> uuid \<Rightarrow> db \<Rightarrow> error option \<times> db" where
  "delete_passengers e uid pid d =
     (if \<not> net e Req_passengers then (Some StoreUnavailable, d)
      else (None, d\<lparr>passengers :=
              filter (\<lambda>x. \<not> (p_id x = pid \<and>
                 rls_using (user_roles d) uid T_passengers Delete (keys_of_id (p_id x))))
                (passengers d)\<rparr>))"

text \<open>
  The form of the page: \<open>pf_flight_id\<close> is \<open>None\<close> for the empty string of the form.
  The payload of an insert carries neither \<^verbatim>\<open>id\<close> nor \<^verbatim>\<open>ticket_id\<close>, so the store
  fills both from their defaults; the payload of an update leaves them as they are.
\<close>

record passenger_form =
  pf_flight_id :: "uuid option"
  pf_first_name :: string
  pf_last_name :: string
  pf_passport_number :: string
  pf_seat_number :: string
  pf_nationality :: string
  pf_boarding_status :: passenger_boarding_status

definition Passengers_handleSave ::
  "env \<Rightarrow> uuid \<Rightarrow> passenger_form \<Rightarrow> uuid option \<Rightarrow> db \<Rightarrow> error option \<times> db" where
  "Passengers_handleSave e user form editId d =
     (case pf_flight_id form of
        None \<Rightarrow> (Some Validation_Error, d)
      | Some fid \<Rightarrow>
          if pf_first_name form = [] \<or> pf_last_name form = [] \<or> pf_passport_number form = []
          then (Some Validation_Error, d)
          else
            let seat = or_else (pf_seat_number form) None Some;
                nationality = or_else (pf_nationality form) ''Unknown'' (\<lambda>s. s)
            in case editId of
                 Some pid \<Rightarrow>
                   let (err, d1) = update_passengers e user pid
                         (\<lambda>x. x\<lparr>p_flight_id := fid, p_first_name := pf_first_name form,
                                 p_last_name := pf_last_name form,
                                 p_passport_number := pf_passport_number form,
                                 p_seat_number := seat, p_nationality := nationality,
                                 p_boarding_status := pf_boarding_status form\<rparr>) d
                   in (case err of
                         Some x \<Rightarrow> (Some x, d1)
                       | None \<Rightarrow>
                           (None, logActivity e user user
                              (''Updated passenger '' @ pf_first_name form @ '' '' @
                               pf_last_name form) ''passenger'' (Some pid) [] d1))
               | None \<Rightarrow>
                   let (err, d1) = insert_passengers e user
                         \<lparr>p_id = gen_random_uuid e Req_passengers, p_flight_id = fid,
                          p_first_name = pf_first_name form, p_last_name = pf_last_name form,
                          p_passport_number = pf_passport_number form, p_seat_number = seat,
                          p_ticket_id = ticket_id_default e,
                          p_boarding_status = pf_boarding_status form,
                          p_nationality = nationality\<rparr> d
                   in (case err of
                         Some x \<Rightarrow> (Some x, d1)
                       | None \<Rightarrow>
                           (None, logActivity e user user
                              (''Added passenger '' @ pf_first_name form @ '' '' @
                               pf_last_name form) ''passenger'' None [] d1)))"

text \<open>
  The log texts name the passenger as the page holds it. The arrow in the text of
  \<^verbatim>\<open>handleBoardingUpdate\<close> is written \<^verbatim>\<open>->\<close> here.
\<close>

definition passenger_name :: "passenger list \<Rightarrow> uuid \<Rightarrow> string" where
  "passenger_name passengers_state pid =
     (case find (\<lambda>p. p_id p = pid) passengers_state of
        None \<Rightarrow> ''undefined undefined''
      | Some p \<Rightarrow> p_first_name p @ '' '' @ p_last_name p)"

definition Passengers_handleDelete ::
  "env \<Rightarrow> uuid \<Rightarrow> passenger list \<Rightarrow> uuid option \<Rightarrow> db \<Rightarrow> error option \<times> db" where
  "Passengers_handleDelete e user passengers_state deleteId d =
     (case deleteId of
        None \<Rightarrow> (None, d)
      | Some pid \<Rightarrow>
          let (err, d1) = delete_passengers e user pid d
          in case err of
               Some x \<Rightarrow> (Some x, d1)
             | None \<Rightarrow>
                 (None, logActivity e user user
                    (''Removed passenger '' @ passenger_name passengers_state pid)
                    ''passenger'' (Some pid) [] d1))"

fun boarding_status_text :: "passenger_boarding_status \<Rightarrow> string" where
  "boarding_status_text pb_checked_in = ''checked_in''"
| "boarding_status_text pb_boarding = ''boarding''"
| "boarding_status_text pb_boarded = ''boarded''"
| "boarding_status_text pb_no_show = ''no_show''"

definition handleBoardingUpdate ::
  "env \<Rightarrow> uuid \<Rightarrow> passenger list \<Rightarrow> uuid \<Rightarrow> passenger_boarding_status \<Rightarrow> db
     \<Rightarrow> error option \<times> db" where
  "handleBoardingUpdate e user passengers_state passengerId newStatus d =
     (let (err, d1) = update_passengers e user passengerId
                        (\<lambda>x. x\<lparr>p_boarding_status := newStatus\<rparr>) d
      in case err of
           Some x \<Rightarrow> (Some x, d1)
         | None \<Rightarrow>
             (None, logActivity e user user
                (''Updated boarding status: '' @ passenger_name passengers_state passengerId
                   @ '' -> '' @ boarding_status_text newStatus)
                ''passenger'' (Some passengerId) [] d1))"

section \<open>The authorization decision of the policies, and the table it is compared with\<close>

datatype entity = Runway | Flight | Passenger | Alert | Identity_Role | ActivityLogEntry

text \<open>An update names the column it writes; the other operations concern the whole row.\<close>

datatype operation = Op_read | Op_insert | Op_update string | Op_delete

fun entity_table :: "entity \<Rightarrow> tbl" where
  "entity_table Runway = T_runways"
| "entity_table Flight = T_flights"
| "entity_table Passenger = T_passengers"
| "entity_table Alert = T_alerts"
| "entity_table Identity_Role = T_user_roles"
| "entity_table ActivityLogEntry = T_activity_log"

fun operation_cmd :: "operation \<Rightarrow> sql_cmd" where
  "operation_cmd Op_read = Select"
| "operation_cmd Op_insert = Insert"
| "operation_cmd (Op_update col) = Update"
| "operation_cmd Op_delete = Delete"

text \<open>
  What the policies decide for the user \<open>uid\<close> on a row whose \<^verbatim>\<open>user_id\<close> column is
  \<open>writer\<close>. A policy sees the row, never the column an update writes.
\<close>

definition canPerform ::
  "user_role list \<Rightarrow> uuid \<Rightarrow> entity \<Rightarrow> operation \<Rightarrow> uuid option \<Rightarrow> bool" where
  "canPerform urs uid en op writer =
     rls_permits urs uid (entity_table en) (operation_cmd op)
       \<lparr>rk_id = None, rk_user_id = writer\<rparr>"

text \<open>
  The table of the specification, section 4.2, row by row; \<open>own\<close> says that the writer of
  an activity entry is the acting user.
\<close>

fun canPerform_spec_table :: "app_role \<Rightarrow> entity \<Rightarrow> operation \<Rightarrow> bool \<Rightarrow> bool" where
  "canPerform_spec_table ro en Op_read own = True"
| "canPerform_spec_table ro Runway op own = (ro = admin \<or> ro = atc)"
| "canPerform_spec_table ro Flight op own =
     (ro = admin \<or> ro = atc \<or> (ro = staff \<and> op = Op_update ''status''))"
| "canPerform_spec_table ro Passenger op own = True"
| "canPerform_spec_table ro Alert op own =
     (ro = admin \<or> ro = atc \<or> (ro = staff \<and> op = Op_insert))"
| "canPerform_spec_table ro Identity_Role op own = (ro = admin)"
| "canPerform_spec_table ro ActivityLogEntry op own = (op = Op_insert \<and> own)"

text \<open>The user holds the role \<open>ro\<close> and no other.\<close>

definition only_role :: "user_role list \<Rightarrow> uuid \<Rightarrow> app_role \<Rightarrow> bool" where
  "only_role urs uid ro =
     (has_role urs uid ro \<and> list_all (\<lambda>r. ur_user_id r \<noteq> uid \<or> ur_role r = ro) urs)"

section \<open>A small airport\<close>

text \<open>
  One user of each role (1 the admin, 2 the controller, 3 the staff member), one occupied
  runway, one boarding flight assigned to it, and two alerts: 30 was acknowledged by the
  admin at time 5000, 31 is still open.
\<close>

definition example_roles :: "user_role list" where
  "example_roles =
     [\<lparr>ur_id = 101, ur_user_id = 1, ur_role = admin\<rparr>,
      \<lparr>ur_id = 102, ur_user_id = 2, ur_role = atc\<rparr>,
      \<lparr>ur_id = 103, ur_user_id = 3, ur_role = staff\<rparr>]"

definition example_runway :: runway where
  "example_runway =
     \<lparr>r_id = 20, r_name = ''Runway 01L'', r_length_meters = 3800, r_status = occupied,
      r_surface_type = ''asphalt'', r_notes = Some ''Primary landing runway''\<rparr>"

definition example_flight :: flight where
  "example_flight =
     \<lparr>f_id = 10, f_flight_number = ''AA100'', f_airline = ''American'', f_origin = ''JFK'',
      f_destination = ''LAX'', f_status = boarding, f_scheduled_departure = 3600000,
      f_scheduled_arrival = 25200000, f_actual_departure = None, f_actual_arrival = None,
      f_runway_id = Some 20, f_gate = Some ''A1'', f_aircraft_type = ''Boeing 737'',
      f_capacity = 180, f_created_by = Some 1, f_notes = Some ''VIP on board''\<rparr>"

definition example_alert_acknowledged :: alert where
  "example_alert_acknowledged =
     \<lparr>a_id = 30, a_title = ''Gate change'', a_message = ''AA100 moved to gate A1'',
      a_severity = sev_info, a_flight_id = Some 10, a_runway_id = None, a_is_active = False,
      a_is_acknowledged = True, a_acknowledged_by = Some 1, a_acknowledged_at = Some 5000,
      a_created_by = Some 2\<rparr>"

definition example_alert_open :: alert where
  "example_alert_open =
     \<lparr>a_id = 31, a_title = ''Crosswind'', a_message = ''Crosswind on Runway 01L'',
      a_severity = sev_warning, a_flight_id = None, a_runway_id = Some 20, a_is_active = True,
      a_is_acknowledged = False, a_acknowledged_by = None, a_acknowledged_at = None,
      a_created_by = Some 2\<rparr>"

definition example_db :: db where
  "example_db =
     \<lparr>user_roles = example_roles, runways = [example_runway], flights = [example_flight],
      passengers = [], activity_log = [],
      alerts = [example_alert_acknowledged, example_alert_open]\<rparr>"

text \<open>
  Every request reaches the store, the clock reads 9000, the digest is the MD5 of the
  empty text, and the flights lie in storage in the order of the table.
\<close>

fun example_uuid :: "request \<Rightarrow> uuid" where
  "example_uuid Req_user_roles = 104"
| "example_uuid Req_runways = 21"
| "example_uuid Req_flights = 11"
| "example_uuid Req_passengers = 50"
| "example_uuid Req_activity_log = 60"
| "example_uuid Req_alerts = 32"

definition example_env :: env where
  "example_env =
     \<lparr>net = (\<lambda>q. True), now = 9000, gen_random_uuid = example_uuid,
      md5_random = ''d41d8cd98f00b204e9800998ecf8427e'', heap_position = (\<lambda>i. 0)\<rparr>"

text \<open>The same environment with the requests to the flights table lost.\<close>

definition example_env_flights_down :: env where
  "example_env_flights_down = example_env\<lparr>net := (\<lambda>q. q \<noteq> Req_flights)\<rparr>"

text \<open>
  Half a second later, with other identifiers from the store and another digest (the MD5
  of the text \<^verbatim>\<open>a\<close>).
\<close>

definition example_env_later :: env where
  "example_env_later =
     example_env\<lparr>now := 9500, gen_random_uuid := (\<lambda>q. example_uuid q + 1),
                 md5_random := ''0cc175b9c0f1b6a831c399e269772661''\<rparr>"

text \<open>
  An environment whose digest differs from that of \<open>example_env\<close> after its first eight
  digits only.
\<close>

definition example_env_same_prefix :: env where
  "example_env_same_prefix =
     example_env_later\<lparr>md5_random := ''d41d8cd9000000000000000000000000''\<rparr>"

text \<open>The requests to the activity log and to the alerts lost.\<close>

definition example_env_log_alerts_down :: env where
  "example_env_log_alerts_down =
     example_env\<lparr>net := (\<lambda>q. q \<noteq> Req_activity_log \<and> q \<noteq> Req_alerts)\<rparr>"

text \<open>Every request lost.\<close>

definition example_env_offline :: env where
  "example_env_offline = example_env\<lparr>net := (\<lambda>q. False)\<rparr>"

text \<open>The store hands out for the next alert an identifier that is taken.\<close>

definition example_env_taken_ids :: env where
  "example_env_taken_ids = example_env\<lparr>gen_random_uuid := (\<lambda>q. 30)\<rparr>"

text \<open>
  The copy of the flight a panel fetched before the flight was rescheduled: one hour
  earlier on both times.
\<close>

definition example_flight_stale :: flight where
  "example_flight_stale =
     example_flight\<lparr>f_scheduled_departure := 0, f_scheduled_arrival := 21600000\<rparr>"

text \<open>The edit dialog of the runways page on runway 20, with the status set to available.\<close>

definition example_runway_form :: runway_form where
  "example_runway_form =
     \<lparr>rf_name = ''Runway 01L'', rf_length_meters = 3800, rf_status = available,
      rf_surface_type = ''asphalt'', rf_notes = ''Primary landing runway''\<rparr>"

text \<open>A filled passenger form for the flight, with the nationality left empty.\<close>

definition example_form :: passenger_form where
  "example_form =
     \<lparr>pf_flight_id = Some 10, pf_first_name = ''Ada'', pf_last_name = ''Byron'',
      pf_passport_number = ''X1234567'', pf_seat_number = ''12A'', pf_nationality = [],
      pf_boarding_status = pb_checked_in\<rparr>"

section \<open>Facts about the policies and the store\<close>

lemmas rls_defs = rls_using_def rls_check_def policies_def
        mk_policy_def applies_def admin_or_atc_def

lemma rls_flights_update:
  "rls_using urs u T_flights Update rk =
     (has_role urs u admin \<or> has_role urs u atc \<or> has_role urs u staff)"
  "rls_check urs u T_flights Update rk =
     (has_role urs u admin \<or> has_role urs u atc \<or> has_role urs u staff)"
  by (auto simp: rls_defs)

lemma rls_runways_update:
  "rls_using urs u T_runways Update rk = (has_role urs u admin \<or> has_role urs u atc)"
  "rls_check urs u T_runways Update rk = (has_role urs u admin \<or> has_role urs u atc)"
  by (auto simp: rls_defs)

lemma rls_alerts_update:
  "rls_using urs u T_alerts Update rk = (has_role urs u admin \<or> has_role urs u atc)"
  "rls_check urs u T_alerts Update rk = (has_role urs u admin \<or> has_role urs u atc)"
  by (auto simp: rls_defs)

lemma rls_alerts_insert:
  "rls_check urs u T_alerts Insert rk =
     (has_role urs u admin \<or> has_role urs u atc \<or> has_role urs u staff)"
  by (auto simp: rls_defs)

lemma rls_activity_insert:
  "rls_check urs u T_activity_log Insert rk = (rk_user_id rk = Some u)"
  by (auto simp: rls_defs)

lemma rls_flights_select: "rls_using urs u T_flights Select rk"
  by (auto simp: rls_defs)

lemma update_flights_eq:
  "update_flights e uid fid patch d =
     (if \<not> net e Req_flights then (Some StoreUnavailable, d)
      else (None, d\<lparr>flights :=
              map (\<lambda>f. if f_id f = fid \<and> rls_using (user_roles d) uid T_flights Update (keys_of_id fid)
                       then patch f else f) (flights d)\<rparr>))"
  by (auto simp: update_flights_def rls_flights_update list_ex_iff Let_def)

lemma update_runways_eq:
  "update_runways e uid rid patch d =
     (if \<not> net e Req_runways then (Some StoreUnavailable, d)
      else (None, d\<lparr>runways :=
              map (\<lambda>r. if r_id r = rid \<and> rls_using (user_roles d) uid T_runways Update (keys_of_id rid)
                       then patch r else r) (runways d)\<rparr>))"
  by (auto simp: update_runways_def rls_runways_update list_ex_iff Let_def)

lemma update_alerts_eq:
  "update_alerts e uid aid patch d =
     (if \<not> net e Req_alerts then (Some StoreUnavailable, d)
      else (None, d\<lparr>alerts :=
              map (\<lambda>a. if a_id a = aid \<and> rls_using (user_roles d) uid T_alerts Update (keys_of_id aid)
                       then patch a else a) (alerts d)\<rparr>))"
  by (auto simp: update_alerts_def rls_alerts_update list_ex_iff Let_def)

lemma year_1_to_9999_valid: "year_1_to_9999 t \<Longrightarrow> date_valid t"
  by (simp add: year_1_to_9999_def date_valid_def)

lemma update_flights_timed_eq:
  "update_flights_timed e uid fid ts patch d =
     (if \<not> net e Req_flights then (Some StoreUnavailable, d)
      else if \<not> list_all year_1_to_9999 ts then (Some Datetime_Rejected, d)
      else (None, d\<lparr>flights :=
              map (\<lambda>f. if f_id f = fid \<and> rls_using (user_roles d) uid T_flights Update (keys_of_id fid)
                       then patch f else f) (flights d)\<rparr>))"
  by (simp add: update_flights_timed_def update_flights_eq)

lemma logActivity_tables [simp]:
  "user_roles (logActivity e s u a t i x d) = user_roles d"
  "runways (logActivity e s u a t i x d) = runways d"
  "flights (logActivity e s u a t i x d) = flights d"
  "passengers (logActivity e s u a t i x d) = passengers d"
  "alerts (logActivity e s u a t i x d) = alerts d"
  by (simp_all add: logActivity_def insert_activity_log_def)

lemma logActivity_log:
  "activity_log (logActivity e u u a t i x d) =
     (if net e Req_activity_log \<and>
         \<not> list_ex (\<lambda>y. l_id y = gen_random_uuid e Req_activity_log) (activity_log d)
      then activity_log d @
             [\<lparr>l_id = gen_random_uuid e Req_activity_log, l_user_id = Some u, l_action = a,
               l_entity_type = t, l_entity_id = i, l_details = x\<rparr>]
      else activity_log d)"
  by (simp add: logActivity_def insert_activity_log_def rls_activity_insert)

lemma insert_alerts_tables [simp]:
  "user_roles (snd (insert_alerts e u row d)) = user_roles d"
  "runways (snd (insert_alerts e u row d)) = runways d"
  "flights (snd (insert_alerts e u row d)) = flights d"
  "passengers (snd (insert_alerts e u row d)) = passengers d"
  "activity_log (snd (insert_alerts e u row d)) = activity_log d"
  by (simp_all add: insert_alerts_def)


lemmas ex_defs = example_db_def example_env_def example_roles_def example_runway_def
  example_flight_def example_alert_acknowledged_def example_alert_open_def
  example_env_flights_down_def example_form_def example_env_later_def
  example_env_same_prefix_def example_env_log_alerts_down_def example_env_offline_def
  example_env_taken_ids_def example_flight_stale_def example_runway_form_def




text \<open>
  Claim C6, as amended. \<^verbatim>\<open>handleDelay\<close> takes the flight \<open>f\<close> as the panel holds it
  and a delay of \<open>m\<close> minutes. When both new times lie in the years 1 to 9999, the
  caller holds a role, a flight with the identifier of \<open>f\<close> is stored, the three requests
  reach the store and the store's new identifiers are not taken: the stored flight's status
  becomes delayed, its scheduled departure and arrival become those of the panel's copy
  moved forward by \<open>m\<close> minutes each (so the interval of the copy is kept), its notes
  become the operator's reason when one was typed and the notes of the copy when the reason
  is empty, and exactly one alert of severity warning and one activity entry are appended.
  This holds for the default 30 and for the values from 5 up; it says nothing of delays
  that leave these years.
\<close>

theorem handleDelay_effect:
  assumes role: "has_role (user_roles d) user admin \<or> has_role (user_roles d) user atc
                 \<or> has_role (user_roles d) user staff"
    and net: "net e Req_flights \<and> net e Req_activity_log \<and> net e Req_alerts"
    and range: "year_1_to_9999 (f_scheduled_departure f + int m * 60000)
                \<and> year_1_to_9999 (f_scheduled_arrival f + int m * 60000)"
    and stored: "list_ex (\<lambda>g. f_id g = f_id f) (flights d)"
    and fresh_l: "\<not> list_ex (\<lambda>y. l_id y = gen_random_uuid e Req_activity_log) (activity_log d)"
    and fresh_a: "\<not> list_ex (\<lambda>y. a_id y = gen_random_uuid e Req_alerts) (alerts d)"
  shows "fst (handleDelay e user m reason (Some f) d) = None
      \<and> flights (snd (handleDelay e user m reason (Some f) d)) =
          map (\<lambda>g. if f_id g = f_id f
                   then g\<lparr>f_status := delayed,
                          f_scheduled_departure := f_scheduled_departure f + int m * 60000,
                          f_scheduled_arrival := f_scheduled_arrival f + int m * 60000,
                          f_notes := (if reason = [] then f_notes f else Some reason)\<rparr>
                   else g) (flights d)
      \<and> (f_scheduled_arrival f + int m * 60000) - (f_scheduled_departure f + int m * 60000)
          = f_scheduled_arrival f - f_scheduled_departure f
      \<and> length (activity_log (snd (handleDelay e user m reason (Some f) d)))
          = length (activity_log d) + 1
      \<and> butlast (activity_log (snd (handleDelay e user m reason (Some f) d))) = activity_log d
      \<and> l_user_id (last (activity_log (snd (handleDelay e user m reason (Some f) d)))) = Some user
      \<and> l_entity_id (last (activity_log (snd (handleDelay e user m reason (Some f) d))))
          = Some (f_id f)
      \<and> length (alerts (snd (handleDelay e user m reason (Some f) d))) = length (alerts d) + 1
      \<and> butlast (alerts (snd (handleDelay e user m reason (Some f) d))) = alerts d
      \<and> a_severity (last (alerts (snd (handleDelay e user m reason (Some f) d)))) = sev_warning
      \<and> a_flight_id (last (alerts (snd (handleDelay e user m reason (Some f) d))))
          = Some (f_id f)"
proof -
  have ex: "list_ex (\<lambda>g. f_id g = f_id f) (map (\<lambda>g. if f_id g = f_id f then h g else g) (flights d))"
    if "\<And>g. f_id (h g) = f_id g" for h
  proof -
    from stored obtain g where g: "g \<in> set (flights d)" "f_id g = f_id f"
      by (auto simp: list_ex_iff)
    then have "h g \<in> set (map (\<lambda>g. if f_id g = f_id f then h g else g) (flights d))"
      by force
    moreover have "f_id (h g) = f_id f" using that g(2) by simp
    ultimately show ?thesis unfolding list_ex_iff by blast
  qed
  have valid: "date_valid (f_scheduled_departure f + int m * 60000)"
       "date_valid (f_scheduled_arrival f + int m * 60000)"
    using range by (simp_all add: year_1_to_9999_valid)
  show ?thesis
    using role net fresh_l fresh_a range valid
    by (simp add: handleDelay_def update_flights_timed_eq rls_flights_update Let_def
          logActivity_log insert_alerts_def rls_alerts_insert or_else_def ex)
qed

theorem handleDelay_effect_witness:
  "fst (handleDelay example_env 2 30 ''Weather'' (Some example_flight) example_db) = None
   \<and> flights (snd (handleDelay example_env 2 30 ''Weather'' (Some example_flight) example_db))
       = [example_flight\<lparr>f_status := delayed, f_scheduled_departure := 5400000,
                          f_scheduled_arrival := 27000000, f_notes := Some ''Weather''\<rparr>]
   \<and> length (activity_log (snd (handleDelay example_env 2 30 ''Weather'' (Some example_flight) example_db))) = 1
   \<and> length (alerts (snd (handleDelay example_env 2 30 ''Weather'' (Some example_flight) example_db))) = 3"
proof -
  have 1: "has_role (user_roles example_db) 2 admin \<or> has_role (user_roles example_db) 2 atc
                 \<or> has_role (user_roles example_db) 2 staff"
    by (simp add: ex_defs has_role_def)
  have 2: "net example_env Req_flights \<and> net example_env Req_activity_log \<and> net example_env Req_alerts"
    by (simp add: ex_defs)
  have 3: "year_1_to_9999 (f_scheduled_departure example_flight + int 30 * 60000)
                \<and> year_1_to_9999 (f_scheduled_arrival example_flight + int 30 * 60000)"
    by (simp add: year_1_to_9999_def ex_defs)
  have 4: "list_ex (\<lambda>g. f_id g = f_id example_flight) (flights example_db)"
    by (simp add: ex_defs)
  have 5: "\<not> list_ex (\<lambda>y. l_id y = gen_random_uuid example_env Req_activity_log) (activity_log example_db)"
    by (simp add: ex_defs)
  have 6: "\<not> list_ex (\<lambda>y. a_id y = gen_random_uuid example_env Req_alerts) (alerts example_db)"
    by (simp add: ex_defs)
  show ?thesis
    using handleDelay_effect [OF 1 2 3 4 5 6, of "''Weather''"]
    by (simp add: ex_defs)
qed

text \<open>
  Claim C6 as stated fails, once for each condition of the amended claim. With the reason
  left empty the notes stay what the flight had. A delay of 5000000000 minutes leaves the
  years 1 to 9999: the store refuses the update and nothing is stored, logged or alerted.
  With the request to the flights table lost nothing happens either. For a caller without
  a role the update changes no row and reports no error, so an activity entry is written
  for a flight that was not delayed, and no alert. On a panel copy fetched before the
  flight was rescheduled by an hour, the stored departure moves from 3600000 back to
  1800000. For a flight that is no longer stored no alert is written. With the store's next
  identifier taken, and with the requests to the log and the alerts lost, the flight is
  delayed without an alert.
\<close>

theorem handleDelay_counterexample:
  "fst (handleDelay example_env 2 30 [] (Some example_flight) example_db) = None
   \<and> map f_notes (flights (snd (handleDelay example_env 2 30 [] (Some example_flight) example_db)))
       = [Some ''VIP on board'']
   \<and> handleDelay example_env 2 5000000000 ''Weather'' (Some example_flight) example_db
       = (Some Datetime_Rejected, example_db)
   \<and> handleDelay example_env_flights_down 2 30 ''Weather'' (Some example_flight) example_db
       = (Some StoreUnavailable, example_db)
   \<and> fst (handleDelay example_env 4 30 ''Weather'' (Some example_flight) example_db) = None
   \<and> flights (snd (handleDelay example_env 4 30 ''Weather'' (Some example_flight) example_db))
       = [example_flight]
   \<and> length (activity_log (snd (handleDelay example_env 4 30 ''Weather'' (Some example_flight)
        example_db))) = 1
   \<and> alerts (snd (handleDelay example_env 4 30 ''Weather'' (Some example_flight) example_db))
       = alerts example_db
   \<and> map f_scheduled_departure (flights example_db) = [3600000]
   \<and> map f_scheduled_departure (flights (snd (handleDelay example_env 2 30 ''Weather''
        (Some example_flight_stale) example_db))) = [1800000]
   \<and> alerts (snd (handleDelay example_env 2 30 ''Weather'' (Some example_flight)
        (example_db\<lparr>flights := []\<rparr>))) = alerts example_db
   \<and> map f_status (flights (snd (handleDelay example_env_taken_ids 2 30 ''Weather''
        (Some example_flight) example_db))) = [delayed]
   \<and> alerts (snd (handleDelay example_env_taken_ids 2 30 ''Weather'' (Some example_flight)
        example_db)) = alerts example_db
   \<and> map f_status (flights (snd (handleDelay example_env_log_alerts_down 2 30 ''Weather''
        (Some example_flight) example_db))) = [delayed]
   \<and> activity_log (snd (handleDelay example_env_log_alerts_down 2 30 ''Weather''
        (Some example_flight) example_db)) = []
   \<and> alerts (snd (handleDelay example_env_log_alerts_down 2 30 ''Weather'' (Some example_flight)
        example_db)) = alerts example_db"
  by (simp add: handleDelay_def update_flights_timed_def update_flights_def logActivity_def
        insert_activity_log_def insert_alerts_def or_else_def date_valid_def year_1_to_9999_def
        ex_defs rls_defs has_role_def keys_of_id_def)

lemma assigned_map_dom:
  "(assigned_map fs m r \<noteq> None) = (m r \<noteq> None \<or> (\<exists>f\<in>set fs. f_runway_id f = Some r))"
  by (induction fs arbitrary: m) (auto split: option.splits)

text \<open>
  The guard of \<^verbatim>\<open>handleStatusChange\<close> of the runways page, as far as it goes: it
  refuses to set a runway to available when the page's map of assigned flights has an
  entry for it, and then leaves the store as it is. A map fetched from the current store
  has such an entry whenever some flight with a status outside landed, cancelled, departed
  has that runway. A change to occupied, maintenance or closed is never refused.
\<close>

lemma Runways_handleStatusChange_guard:
  "(assignedFlights runwayId \<noteq> None \<longrightarrow>
      Runways_handleStatusChange e user rs assignedFlights runwayId available d
        = (Some Cannot_Set_Available, d))
   \<and> (net e' Req_flights \<and>
       (\<exists>f\<in>set (flights d). f_runway_id f = Some runwayId
                             \<and> f_status f \<notin> {landed, cancelled, departed}) \<longrightarrow>
      Runways_handleStatusChange e user rs (fetchAssignedFlights e' user' d) runwayId available d
        = (Some Cannot_Set_Available, d))
   \<and> (newStatus \<noteq> available \<longrightarrow>
      fst (Runways_handleStatusChange e user rs assignedFlights runwayId newStatus d)
        \<noteq> Some Cannot_Set_Available)"
proof (intro conjI impI)
  assume "assignedFlights runwayId \<noteq> None"
  then show "Runways_handleStatusChange e user rs assignedFlights runwayId available d
        = (Some Cannot_Set_Available, d)"
    by (simp add: Runways_handleStatusChange_def)
next
  assume a: "net e' Req_flights \<and>
       (\<exists>f\<in>set (flights d). f_runway_id f = Some runwayId
                             \<and> f_status f \<notin> {landed, cancelled, departed})"
  then obtain f where f: "f \<in> set (flights d)" "f_runway_id f = Some runwayId"
      "f_status f \<notin> {landed, cancelled, departed}"
    by blast
  define rows where "rows = sort_key (\<lambda>f. heap_position e' (f_id f))
      (filter (\<lambda>f. rls_using (user_roles d) user' T_flights Select (keys_of_id (f_id f))
                         \<and> f_runway_id f \<noteq> None
                         \<and> f_status f \<notin> {landed, cancelled, departed}) (flights d))"
  have "f \<in> set rows"
    using f by (simp add: rows_def rls_flights_select)
  with f(2) have "assigned_map rows Map.empty runwayId \<noteq> None"
    unfolding assigned_map_dom by blast
  moreover have "fetchAssignedFlights e' user' d = assigned_map rows Map.empty"
    using a by (simp add: fetchAssignedFlights_def select_assigned_def rows_def)
  ultimately have "fetchAssignedFlights e' user' d runwayId \<noteq> None"
    by simp
  then show "Runways_handleStatusChange e user rs (fetchAssignedFlights e' user' d) runwayId available d
        = (Some Cannot_Set_Available, d)"
    by (simp add: Runways_handleStatusChange_def)
next
  assume "newStatus \<noteq> available"
  then show "fst (Runways_handleStatusChange e user rs assignedFlights runwayId newStatus d)
        \<noteq> Some Cannot_Set_Available"
    by (simp add: Runways_handleStatusChange_def update_runways_eq Let_def)
qed

lemma Runways_handleStatusChange_guard_example:
  "fetchAssignedFlights example_env 3 example_db 20 \<noteq> None
   \<and> Runways_handleStatusChange example_env 2 (runways example_db)
        (fetchAssignedFlights example_env 3 example_db) 20 available example_db
        = (Some Cannot_Set_Available, example_db)
   \<and> fst (Runways_handleStatusChange example_env 2 (runways example_db)
        (fetchAssignedFlights example_env 3 example_db) 20 maintenance example_db)
        \<noteq> Some Cannot_Set_Available"
proof -
  have 1: "net example_env Req_flights \<and>
       (\<exists>f\<in>set (flights example_db). f_runway_id f = Some 20
                             \<and> f_status f \<notin> {landed, cancelled, departed})"
    by (simp add: ex_defs)
  have 2: "fetchAssignedFlights example_env 3 example_db 20 \<noteq> None"
    by (simp add: fetchAssignedFlights_def select_assigned_def ex_defs rls_defs keys_of_id_def)
  have 3: "maintenance \<noteq> available" by simp
  show ?thesis
    using Runways_handleStatusChange_guard
      [of "fetchAssignedFlights example_env 3 example_db" 20 example_env 2 "runways example_db"
          example_db example_env 3 maintenance] 1 2 3
    by blast
qed

text \<open>
  Claim C3 at its failing inputs. The boarding flight 10 holds runway 20, and the runway is
  set to available all the same: by \<^verbatim>\<open>handleStatusChange\<close> on a page whose map of
  assigned flights has not been fetched yet (it starts empty); by the same handler after a
  fetch that failed, which leaves the map empty; and by the edit dialog
  (\<^verbatim>\<open>handleSave\<close>), which sends the form's status without asking the map, here one that
  was fetched and has the entry.
\<close>

theorem Runways_available_under_assigned_flight:
  "map f_status (flights example_db) = [boarding]
   \<and> map f_runway_id (flights example_db) = [Some 20]
   \<and> fst (Runways_handleStatusChange example_env 2 (runways example_db)
        assignedFlights_initial 20 available example_db) = None
   \<and> map r_status (runways (snd (Runways_handleStatusChange example_env 2 (runways example_db)
        assignedFlights_initial 20 available example_db))) = [available]
   \<and> fetchAssignedFlights example_env_flights_down 2 example_db 20 = None
   \<and> fst (Runways_handleStatusChange example_env 2 (runways example_db)
        (fetchAssignedFlights example_env_flights_down 2 example_db) 20 available example_db)
       = None
   \<and> map r_status (runways (snd (Runways_handleStatusChange example_env 2 (runways example_db)
        (fetchAssignedFlights example_env_flights_down 2 example_db) 20 available example_db)))
       = [available]
   \<and> map_option af_id (fetchAssignedFlights example_env 2 example_db 20) = Some 10
   \<and> fst (Runways_handleSave example_env 2 example_runway_form (Some 20) example_db) = None
   \<and> map r_status (runways (snd (Runways_handleSave example_env 2 example_runway_form (Some 20)
        example_db))) = [available]"
  by (simp add: Runways_handleStatusChange_def Runways_handleSave_def assignedFlights_initial_def
        fetchAssignedFlights_def select_assigned_def update_runways_def update_runways_named_def
        logActivity_def insert_activity_log_def or_else_def
        ex_defs rls_defs has_role_def keys_of_id_def)

text \<open>
  What \<^verbatim>\<open>handleAcknowledge\<close> does to an alert that is already acknowledged (and so
  inactive): a call by an admin or a controller that reaches the store replaces
  \<^verbatim>\<open>acknowledged_by\<close> by the caller and \<^verbatim>\<open>acknowledged_at\<close> by the time of the call, and
  changes nothing else; a call by a user with neither role, or one that does not reach the
  store, leaves the alerts as they are. A page that holds the current alerts does not
  offer the button on such an alert.
\<close>

lemma handleAcknowledge_second_call:
  assumes ack: "list_all (\<lambda>a. a_id a \<noteq> alertId \<or> (a_is_acknowledged a \<and> \<not> a_is_active a)) (alerts d)"
  shows "fst (handleAcknowledge e user alertId d)
           = (if net e Req_alerts then None else Some StoreUnavailable)
       \<and> alerts (snd (handleAcknowledge e user alertId d))
           = map (\<lambda>a. if a_id a = alertId \<and> net e Req_alerts
                          \<and> (has_role (user_roles d) user admin \<or> has_role (user_roles d) user atc)
                       then a\<lparr>a_acknowledged_by := Some user, a_acknowledged_at := Some (now e)\<rparr>
                       else a) (alerts d)
       \<and> \<not> acknowledge_offered (alerts d) alertId"
proof -
  have same: "a\<lparr>a_is_acknowledged := True, a_acknowledged_by := Some user,
                 a_acknowledged_at := Some (now e), a_is_active := False\<rparr>
              = a\<lparr>a_acknowledged_by := Some user, a_acknowledged_at := Some (now e)\<rparr>"
    if "a \<in> set (alerts d)" "a_id a = alertId" for a
    using ack that by (cases a) (auto simp: list_all_iff)
  have off: "\<not> acknowledge_offered (alerts d) alertId"
    using ack by (auto simp: acknowledge_offered_def list_all_iff list_ex_iff)
  show ?thesis
    using off
    by (auto simp: handleAcknowledge_def update_alerts_eq rls_alerts_update Let_def same)
qed

text \<open>
  Claim C4 at its failing input. Two operators have the alerts page open on the open alert
  31. The admin acknowledges it at time 9000. The controller's page still holds the alert as
  it was fetched, so it still offers the button; the controller's call at time 9500
  reports no error and replaces the admin's name and time by the controller's. The same
  happens to alert 30, acknowledged by the admin at time 5000.
\<close>

theorem handleAcknowledge_erases_first_acknowledgement:
  "acknowledge_offered (alerts example_db) 31
   \<and> fst (handleAcknowledge example_env 1 31 example_db) = None
   \<and> map a_acknowledged_by (alerts (snd (handleAcknowledge example_env 1 31 example_db)))
       = [Some 1, Some 1]
   \<and> map a_acknowledged_at (alerts (snd (handleAcknowledge example_env 1 31 example_db)))
       = [Some 5000, Some 9000]
   \<and> fst (handleAcknowledge example_env_later 2 31
            (snd (handleAcknowledge example_env 1 31 example_db))) = None
   \<and> map a_acknowledged_by (alerts (snd (handleAcknowledge example_env_later 2 31
            (snd (handleAcknowledge example_env 1 31 example_db))))) = [Some 1, Some 2]
   \<and> map a_acknowledged_at (alerts (snd (handleAcknowledge example_env_later 2 31
            (snd (handleAcknowledge example_env 1 31 example_db))))) = [Some 5000, Some 9500]
   \<and> fst (handleAcknowledge example_env 2 30 example_db) = None
   \<and> map a_acknowledged_by (alerts (snd (handleAcknowledge example_env 2 30 example_db)))
       = [Some 2, None]
   \<and> map a_acknowledged_at (alerts (snd (handleAcknowledge example_env 2 30 example_db)))
       = [Some 9000, None]"
  by (simp add: acknowledge_offered_def handleAcknowledge_def update_alerts_def logActivity_def
        insert_activity_log_def ex_defs rls_defs has_role_def keys_of_id_def)

text \<open>
  Claim C2 at its failing input. The status drop-down of the flights page takes the
  boarding flight on runway 20 to departed: the flight keeps \<^verbatim>\<open>runway_id\<close> 20 and the
  runway stays occupied.
\<close>

theorem Flights_handleStatusChange_keeps_runway:
  "Flights_handleStatusChange example_env 2 (flights example_db) 10 departed example_db
     = (None, example_db\<lparr>flights := [example_flight\<lparr>f_status := departed\<rparr>],
          activity_log := [\<lparr>l_id = 60, l_user_id = Some 2,
             l_action = ''Changed AA100 status to departed'', l_entity_type = ''flight'',
             l_entity_id = Some 10, l_details = []\<rparr>]\<rparr>)
   \<and> f_runway_id (example_flight\<lparr>f_status := departed\<rparr>) = Some 20
   \<and> runways (example_db\<lparr>flights := [example_flight\<lparr>f_status := departed\<rparr>]\<rparr>)
       = [example_runway]
   \<and> r_status example_runway = occupied"
  by (simp add: Flights_handleStatusChange_def update_flights_def logActivity_def
        insert_activity_log_def ex_defs rls_defs has_role_def keys_of_id_def)

text \<open>
  Claim C5 at its failing input. After the status drop-down of the flights page, the
  flight is departed without \<^verbatim>\<open>actual_departure\<close>, landed without
  \<^verbatim>\<open>actual_arrival\<close>, and cancelled with its runway still assigned.
\<close>

theorem Flights_handleStatusChange_no_timestamps:
  "map f_status (flights (snd (Flights_handleStatusChange example_env 1 (flights example_db)
       10 departed example_db))) = [departed]
   \<and> map f_actual_departure (flights (snd (Flights_handleStatusChange example_env 1
       (flights example_db) 10 departed example_db))) = [None]
   \<and> map f_status (flights (snd (Flights_handleStatusChange example_env 1 (flights example_db)
       10 landed example_db))) = [landed]
   \<and> map f_actual_arrival (flights (snd (Flights_handleStatusChange example_env 1
       (flights example_db) 10 landed example_db))) = [None]
   \<and> map f_status (flights (snd (Flights_handleStatusChange example_env 1 (flights example_db)
       10 cancelled example_db))) = [cancelled]
   \<and> map f_runway_id (flights (snd (Flights_handleStatusChange example_env 1
       (flights example_db) 10 cancelled example_db))) = [Some 20]"
  by (simp add: Flights_handleStatusChange_def update_flights_def logActivity_def
        insert_activity_log_def ex_defs rls_defs has_role_def keys_of_id_def)

text \<open>
  Claim C7 at its failing input. A staff member acknowledges the open alert 31: the update
  policy hides the row from the statement, which changes nothing and reports no error, and
  the handler appends an activity entry for a mutation that did not happen.
\<close>

theorem handleAcknowledge_staff_logs_without_change:
  "handleAcknowledge example_env 3 31 example_db
     = (None, example_db\<lparr>activity_log := [\<lparr>l_id = 60, l_user_id = Some 3,
          l_action = ''Acknowledged alert'', l_entity_type = ''alert'',
          l_entity_id = Some 31, l_details = []\<rparr>]\<rparr>)
   \<and> alerts (example_db\<lparr>activity_log := [\<lparr>l_id = 60, l_user_id = Some 3,
          l_action = ''Acknowledged alert'', l_entity_type = ''alert'',
          l_entity_id = Some 31, l_details = []\<rparr>]\<rparr>) = alerts example_db"
  by (simp add: handleAcknowledge_def update_alerts_def logActivity_def insert_activity_log_def
        ex_defs rls_defs has_role_def keys_of_id_def)

text \<open>
  Claim C8 at its failing input. The admin changes the role of user 3 to atc: the table
  has no unique index over \<^verbatim>\<open>user_id\<close> alone, the upsert is rejected and the user
  keeps the role staff. The index over \<^verbatim>\<open>(user_id, role)\<close> also lets a plain insert give
  the same user a second role.
\<close>

theorem handleRoleChange_rejected:
  "handleRoleChange example_env 1 3 atc example_db = (Some NoArbiterIndex, example_db)
   \<and> get_user_role (user_roles example_db) 3 = Some staff
   \<and> fst (insert_user_roles example_env 1 \<lparr>ur_id = 104, ur_user_id = 3, ur_role = atc\<rparr>
        example_db) = None
   \<and> map ur_user_id (user_roles (snd (insert_user_roles example_env 1
        \<lparr>ur_id = 104, ur_user_id = 3, ur_role = atc\<rparr> example_db))) = [1, 2, 3, 3]
   \<and> map ur_role (user_roles (snd (insert_user_roles example_env 1
        \<lparr>ur_id = 104, ur_user_id = 3, ur_role = atc\<rparr> example_db))) = [admin, atc, staff, atc]"
  by (simp add: handleRoleChange_def upsert_user_roles_def insert_user_roles_def
        user_roles_unique_indexes_def ur_conflict_def get_user_role_def
        ex_defs rls_defs has_role_def)

text \<open>
  The action of the panel on the same flight, for comparison with the status drop-down of
  the flights page: takeoff stamps \<^verbatim>\<open>actual_departure\<close>, clears the runway of the
  flight and frees the runway.
\<close>

lemma executeAction_takeoff_example:
  "executeAction example_env 2 (flights example_db) [] (confirmAction example_flight takeoff)
     example_db
   = (None, example_db\<lparr>runways := [example_runway\<lparr>r_status := available\<rparr>],
        flights := [example_flight\<lparr>f_status := departed, f_actual_departure := Some 9000,
                                    f_runway_id := None\<rparr>],
        activity_log := [\<lparr>l_id = 60, l_user_id = Some 2,
           l_action = ''ATC: Approve Takeoff for AA100'', l_entity_type = ''flight'',
           l_entity_id = Some 10, l_details = [(''action'', ''takeoff'')]\<rparr>]\<rparr>)"
  by (simp add: executeAction_def executeAction_on_def send_plain_def confirmAction_def
        update_runways_def update_flights_def logActivity_def insert_activity_log_def
        ex_defs rls_defs has_role_def keys_of_id_def Let_def)

lemma has_role_only: "only_role urs uid ro \<Longrightarrow> has_role urs uid x = (x = ro)"
  by (auto simp: only_role_def has_role_def list_all_iff list_ex_iff)

lemma canPerform_table_elsewhere:
  assumes "only_role urs uid ro"
    and "\<not> (ro = staff \<and> en = Flight \<and> (\<exists>col. op = Op_update col \<and> col \<noteq> ''status''))"
  shows "canPerform urs uid en op writer = canPerform_spec_table ro en op (writer = Some uid)"
  using assms(2)
  by (cases en; cases op; cases ro)
     (auto simp: canPerform_def rls_permits_def rls_defs has_role_only[OF assms(1)])

text \<open>
  Claim C1 at its failing input. The policy \<^verbatim>\<open>Staff can update flight status\<close> is a
  row policy for \<^verbatim>\<open>UPDATE\<close> with no restriction on columns: a user whose only role is
  staff may write the gate or the runway of a flight, which the table of the specification
  forbids. Everywhere else the policies and the table agree
  (\<open>canPerform_table_elsewhere\<close>).
\<close>

theorem staff_may_update_any_flight_column:
  "get_user_role example_roles 3 = Some staff
   \<and> canPerform example_roles 3 Flight (Op_update ''gate'') None
   \<and> canPerform example_roles 3 Flight (Op_update ''runway_id'') None
   \<and> \<not> canPerform_spec_table staff Flight (Op_update ''gate'') False
   \<and> \<not> canPerform_spec_table staff Flight (Op_update ''runway_id'') False"
  by (simp add: get_user_role_def canPerform_def rls_permits_def rls_defs has_role_def ex_defs)

lemma example_staff_only_role: "only_role example_roles 3 staff"
  by (simp add: only_role_def has_role_def ex_defs)

lemma upper_char_hex:
  "c \<in> set ''0123456789abcdef'' \<Longrightarrow>
   upper_char c \<in> set ''ABCDEFGHIJKLMNOPQRSTUVWXYZ0123456789''"
  by (auto simp: upper_char_def)

lemma ticket_id_default_pattern:
  assumes "is_md5_text (md5_random e)"
  shows "matches_ticket_pattern (ticket_id_default e)"
proof -
  have len: "length (md5_random e) = 32"
    and hex: "\<forall>c\<in>set (md5_random e). c \<in> set ''0123456789abcdef''"
    using assms by (auto simp: is_md5_text_def list_all_iff)
  have "\<forall>c\<in>set (take 8 (md5_random e)). c \<in> set ''0123456789abcdef''"
    using hex by (meson in_set_takeD)
  then have "list_all (\<lambda>c. c \<in> set ''ABCDEFGHIJKLMNOPQRSTUVWXYZ0123456789'')
               (map upper_char (take 8 (md5_random e)))"
    unfolding list_all_iff using upper_char_hex by auto
  then show ?thesis
    using len by (simp add: matches_ticket_pattern_def ticket_id_default_def substr_def upper_def)
qed

lemma insert_passengers_tickets:
  "distinct (map p_ticket_id (passengers d)) \<Longrightarrow>
   distinct (map p_ticket_id (passengers (snd (insert_passengers e u row d))))"
  by (auto simp: insert_passengers_def list_ex_iff)

lemma insert_passengers_appends:
  "fst (insert_passengers e u row d) = None \<Longrightarrow>
   passengers (snd (insert_passengers e u row d)) = passengers d @ [row]"
  by (auto simp: insert_passengers_def split: if_splits)

lemma update_passengers_tickets:
  "distinct (map p_ticket_id (passengers d)) \<Longrightarrow>
   distinct (map p_ticket_id (passengers (snd (update_passengers e u pid patch d))))"
  by (auto simp: update_passengers_def Let_def)

lemma delete_passengers_tickets:
  "distinct (map p_ticket_id (passengers d)) \<Longrightarrow>
   distinct (map p_ticket_id (passengers (snd (delete_passengers e u pid d))))"
  by (auto simp: delete_passengers_def distinct_map_filter)

lemma Passengers_handleSave_tickets:
  assumes "distinct (map p_ticket_id (passengers d))"
  shows "distinct (map p_ticket_id (passengers (snd (Passengers_handleSave e user form editId d))))"
  using assms insert_passengers_tickets update_passengers_tickets
  by (auto simp: Passengers_handleSave_def Let_def split_def split: option.splits)

lemma Passengers_handleSave_insert:
  assumes "fst (Passengers_handleSave e user form None d) = None"
  shows "map p_ticket_id (passengers (snd (Passengers_handleSave e user form None d)))
           = map p_ticket_id (passengers d) @ [ticket_id_default e]"
  using assms
  by (auto simp: Passengers_handleSave_def Let_def split_def insert_passengers_appends
           split: option.splits if_splits)

lemma upper_char_inj_hex: "inj_on upper_char (set ''0123456789abcdef'')"
proof (rule inj_on_inverseI)
  fix c :: char
  assume "c \<in> set ''0123456789abcdef''"
  then show "(\<lambda>u. case map_of (zip ''ABCDEF'' ''abcdef'') u of None \<Rightarrow> u | Some l \<Rightarrow> l)
               (upper_char c) = c"
    unfolding list.set
    by (elim insertE emptyE) (simp_all add: upper_char_def)
qed

lemma upper_hex_eq:
  assumes "\<forall>c\<in>set xs. c \<in> set ''0123456789abcdef''"
    and "\<forall>c\<in>set ys. c \<in> set ''0123456789abcdef''"
  shows "(map upper_char xs = map upper_char ys) = (xs = ys)"
proof -
  have "set xs \<union> set ys \<subseteq> set ''0123456789abcdef''"
    using assms by blast
  then have "inj_on upper_char (set xs \<union> set ys)"
    by (rule inj_on_subset [OF upper_char_inj_hex])
  then show ?thesis by (rule inj_on_map_eq_map)
qed

lemma ticket_id_default_eq:
  assumes "is_md5_text (md5_random e)" and "is_md5_text (md5_random e')"
  shows "(ticket_id_default e = ticket_id_default e')
           = (take 8 (md5_random e) = take 8 (md5_random e'))"
proof -
  have 1: "\<forall>c\<in>set (take 8 (md5_random e)). c \<in> set ''0123456789abcdef''"
    using assms(1) unfolding is_md5_text_def list_all_iff by (meson in_set_takeD)
  have 2: "\<forall>c\<in>set (take 8 (md5_random e')). c \<in> set ''0123456789abcdef''"
    using assms(2) unfolding is_md5_text_def list_all_iff by (meson in_set_takeD)
  have "(map upper_char (take 8 (md5_random e)) = map upper_char (take 8 (md5_random e')))
          = (take 8 (md5_random e) = take 8 (md5_random e'))"
    by (rule upper_hex_eq [OF 1 2])
  then show ?thesis
    by (simp add: ticket_id_default_def substr_def upper_def)
qed

lemma Passengers_handleSave_collision:
  assumes "ticket_id_default e \<in> set (map p_ticket_id (passengers d))"
  shows "fst (Passengers_handleSave e user form None d) \<noteq> None
       \<and> snd (Passengers_handleSave e user form None d) = d"
  using assms
  by (auto simp: Passengers_handleSave_def insert_passengers_def list_ex_iff Let_def
           split: option.splits)

text \<open>
  Claim C9, as amended. A ticket identifier the column default generates is \<^verbatim>\<open>TKT-\<close>
  followed by eight characters among A to Z and 0 to 9. Two generated identifiers are
  equal exactly when the two digests agree on their first eight digits, so generated
  identifiers are not always distinct. The identifiers of the stored passengers are
  pairwise distinct all the same: a passenger added through the page receives the
  generated identifier, the insert of a passenger whose generated identifier is already
  stored is refused and leaves the store as it is, and every statement the passengers page
  sends keeps the stored identifiers pairwise distinct.
\<close>

theorem ticket_ids_pattern_and_unique:
  assumes md5: "is_md5_text (md5_random e)"
    and md5': "is_md5_text (md5_random e')"
    and inv: "distinct (map p_ticket_id (passengers d))"
  shows "matches_ticket_pattern (ticket_id_default e)
       \<and> ((ticket_id_default e = ticket_id_default e')
            = (take 8 (md5_random e) = take 8 (md5_random e')))
       \<and> (ticket_id_default e \<in> set (map p_ticket_id (passengers d)) \<longrightarrow>
            fst (Passengers_handleSave e user form None d) \<noteq> None
            \<and> snd (Passengers_handleSave e user form None d) = d)
       \<and> (fst (Passengers_handleSave e user form None d) = None \<longrightarrow>
            map p_ticket_id (passengers (snd (Passengers_handleSave e user form None d)))
              = map p_ticket_id (passengers d) @ [ticket_id_default e])
       \<and> distinct (map p_ticket_id
            (passengers (snd (Passengers_handleSave e user form editId d))))
       \<and> distinct (map p_ticket_id
            (passengers (snd (Passengers_handleDelete e user ps deleteId d))))
       \<and> distinct (map p_ticket_id
            (passengers (snd (handleBoardingUpdate e user ps pid st d))))"
proof (intro conjI impI)
  show "matches_ticket_pattern (ticket_id_default e)"
    using md5 by (rule ticket_id_default_pattern)
next
  show "(ticket_id_default e = ticket_id_default e')
            = (take 8 (md5_random e) = take 8 (md5_random e'))"
    using md5 md5' by (rule ticket_id_default_eq)
next
  assume "ticket_id_default e \<in> set (map p_ticket_id (passengers d))"
  then show "fst (Passengers_handleSave e user form None d) \<noteq> None"
    and "snd (Passengers_handleSave e user form None d) = d"
    using Passengers_handleSave_collision by blast+
next
  assume "fst (Passengers_handleSave e user form None d) = None"
  then show "map p_ticket_id (passengers (snd (Passengers_handleSave e user form None d)))
              = map p_ticket_id (passengers d) @ [ticket_id_default e]"
    by (rule Passengers_handleSave_insert)
next
  show "distinct (map p_ticket_id
            (passengers (snd (Passengers_handleSave e user form editId d))))"
    using inv by (rule Passengers_handleSave_tickets)
next
  show "distinct (map p_ticket_id
            (passengers (snd (Passengers_handleDelete e user ps deleteId d))))"
    using inv delete_passengers_tickets [OF inv]
    by (auto simp: Passengers_handleDelete_def Let_def split_def split: option.splits)
next
  show "distinct (map p_ticket_id
            (passengers (snd (handleBoardingUpdate e user ps pid st d))))"
    using update_passengers_tickets [OF inv]
    by (auto simp: handleBoardingUpdate_def Let_def split_def split: option.splits)
qed

lemma example_first_passenger:
  "Passengers_handleSave example_env 3 example_form None example_db
     = (None, example_db\<lparr>passengers :=
          [\<lparr>p_id = 50, p_flight_id = 10, p_first_name = ''Ada'', p_last_name = ''Byron'',
            p_passport_number = ''X1234567'', p_seat_number = Some ''12A'',
            p_ticket_id = ''TKT-D41D8CD9'', p_boarding_status = pb_checked_in,
            p_nationality = ''Unknown''\<rparr>],
          activity_log := [\<lparr>l_id = 60, l_user_id = Some 3, l_action = ''Added passenger Ada Byron'',
            l_entity_type = ''passenger'', l_entity_id = None, l_details = []\<rparr>]\<rparr>)"
  by (simp add: Passengers_handleSave_def insert_passengers_def or_else_def
        ticket_id_default_def substr_def upper_def upper_char_def logActivity_def
        insert_activity_log_def ex_defs rls_defs has_role_def keys_of_id_def)

theorem ticket_ids_pattern_and_unique_witness:
  "is_md5_text (md5_random example_env_later) \<and> is_md5_text (md5_random example_env)
   \<and> map p_ticket_id (passengers (snd (Passengers_handleSave example_env 3 example_form None
        example_db))) = [''TKT-D41D8CD9'']
   \<and> ticket_id_default example_env_later = ''TKT-0CC175B9''
   \<and> matches_ticket_pattern ''TKT-0CC175B9''
   \<and> ticket_id_default example_env_later \<noteq> ticket_id_default example_env
   \<and> fst (Passengers_handleSave example_env_later 3 example_form None
        (snd (Passengers_handleSave example_env 3 example_form None example_db))) = None
   \<and> map p_ticket_id (passengers (snd (Passengers_handleSave example_env_later 3 example_form
        None (snd (Passengers_handleSave example_env 3 example_form None example_db)))))
       = [''TKT-D41D8CD9'', ''TKT-0CC175B9'']"
proof -
  define d1 where "d1 = snd (Passengers_handleSave example_env 3 example_form None example_db)"
  have d1: "d1 = example_db\<lparr>passengers :=
          [\<lparr>p_id = 50, p_flight_id = 10, p_first_name = ''Ada'', p_last_name = ''Byron'',
            p_passport_number = ''X1234567'', p_seat_number = Some ''12A'',
            p_ticket_id = ''TKT-D41D8CD9'', p_boarding_status = pb_checked_in,
            p_nationality = ''Unknown''\<rparr>],
          activity_log := [\<lparr>l_id = 60, l_user_id = Some 3, l_action = ''Added passenger Ada Byron'',
            l_entity_type = ''passenger'', l_entity_id = None, l_details = []\<rparr>]\<rparr>"
    by (simp add: d1_def example_first_passenger)
  have 1: "is_md5_text (md5_random example_env_later)"
    by (simp add: is_md5_text_def ex_defs)
  have 2: "is_md5_text (md5_random example_env)"
    by (simp add: is_md5_text_def ex_defs)
  have 3: "distinct (map p_ticket_id (passengers d1))"
    by (simp add: d1)
  have 4: "ticket_id_default example_env_later = ''TKT-0CC175B9''"
    by (simp add: ticket_id_default_def substr_def upper_def upper_char_def ex_defs)
  have 5: "fst (Passengers_handleSave example_env_later 3 example_form None d1) = None"
    by (simp add: d1 Passengers_handleSave_def insert_passengers_def or_else_def
          ticket_id_default_def substr_def upper_def upper_char_def
          ex_defs rls_defs has_role_def keys_of_id_def)
  have 6: "take 8 (md5_random example_env_later) \<noteq> take 8 (md5_random example_env)"
    by (simp add: ex_defs)
  have "matches_ticket_pattern (ticket_id_default example_env_later)
      \<and> ticket_id_default example_env_later \<noteq> ticket_id_default example_env
      \<and> map p_ticket_id (passengers (snd (Passengers_handleSave example_env_later 3 example_form
            None d1))) = map p_ticket_id (passengers d1) @ [ticket_id_default example_env_later]"
    using ticket_ids_pattern_and_unique [OF 1 2 3, of 3 example_form] 5 6 by blast
  then show ?thesis
    using 1 2 4 5 by (simp add: d1 [symmetric] d1_def [symmetric]) (simp add: d1)
qed

text \<open>
  Claim C9 as stated fails: two digests that differ after their first eight digits give
  the same identifier, and the second passenger, for whom it is generated, is refused.
\<close>

theorem ticket_ids_collide_counterexample:
  "is_md5_text (md5_random example_env)
   \<and> is_md5_text (md5_random example_env_same_prefix)
   \<and> md5_random example_env \<noteq> md5_random example_env_same_prefix
   \<and> ticket_id_default example_env = ''TKT-D41D8CD9''
   \<and> ticket_id_default example_env_same_prefix = ''TKT-D41D8CD9''
   \<and> fst (Passengers_handleSave example_env 3 example_form None example_db) = None
   \<and> Passengers_handleSave example_env_same_prefix 3 example_form None
        (snd (Passengers_handleSave example_env 3 example_form None example_db))
       = (Some UniqueViolation,
          snd (Passengers_handleSave example_env 3 example_form None example_db))"
  by (simp add: example_first_passenger)
     (simp add: is_md5_text_def Passengers_handleSave_def insert_passengers_def or_else_def
        ticket_id_default_def substr_def upper_def upper_char_def
        ex_defs rls_defs has_role_def keys_of_id_def)

text \<open>
  \<^verbatim>\<open>handleRoleChange\<close> against this schema: every call that reaches the store is
  rejected, and no call adds to the activity log.
\<close>

lemma handleRoleChange_always_rejected:
  "fst (handleRoleChange e user userId newRole d) \<noteq> None
   \<and> snd (handleRoleChange e user userId newRole d) = d"
  by (simp add: handleRoleChange_def upsert_user_roles_def user_roles_unique_indexes_def)


text \<open>
  The status drop-down of the flights page, on every input: it writes the status column and
  nothing else, so it neither stamps a time nor clears or frees a runway.
\<close>

lemma Flights_handleStatusChange_only_status:
  "runways (snd (Flights_handleStatusChange e user fs fid st d)) = runways d
   \<and> map f_runway_id (flights (snd (Flights_handleStatusChange e user fs fid st d)))
       = map f_runway_id (flights d)
   \<and> map f_actual_departure (flights (snd (Flights_handleStatusChange e user fs fid st d)))
       = map f_actual_departure (flights d)
   \<and> map f_actual_arrival (flights (snd (Flights_handleStatusChange e user fs fid st d)))
       = map f_actual_arrival (flights d)"
  by (simp add: Flights_handleStatusChange_def update_flights_eq Let_def comp_def
        cong: map_cong)

text \<open>
  The action of the panel, when both updates reach the store for a controller or an admin
  and the panel holds the flight with a runway: the runway is freed, the flight gets the
  new status, the time stamp of a departure or landing, and no runway.
\<close>

lemma executeAction_releases_runway:
  assumes pa: "pendingAction = Some pa"
    and st: "pa_newStatus pa \<in> {departed, landed, cancelled}"
    and fnd: "find (\<lambda>fl. f_id fl = pa_flightId pa) flights_state = Some f"
    and rw: "f_runway_id f = Some rid"
    and role: "has_role (user_roles d) user admin \<or> has_role (user_roles d) user atc"
    and net: "net e Req_runways \<and> net e Req_flights"
  shows "fst (executeAction e user flights_state emergencyNote pendingAction d) = None
       \<and> runways (snd (executeAction e user flights_state emergencyNote pendingAction d))
           = map (\<lambda>r. if r_id r = rid then r\<lparr>r_status := available\<rparr> else r) (runways d)
       \<and> flights (snd (executeAction e user flights_state emergencyNote pendingAction d))
           = map (\<lambda>g. if f_id g = pa_flightId pa
                       then g\<lparr>f_status := pa_newStatus pa,
                              f_actual_departure :=
                                (if pa_newStatus pa = departed then Some (now e)
                                 else f_actual_departure g),
                              f_actual_arrival :=
                                (if pa_newStatus pa = landed then Some (now e)
                                 else f_actual_arrival g),
                              f_runway_id := None\<rparr>
                       else g) (flights d)"
proof -
  consider "pa_newStatus pa = departed" | "pa_newStatus pa = landed" | "pa_newStatus pa = cancelled"
    using st by auto
  then show ?thesis
  proof cases
    case 1
    then show ?thesis
      unfolding executeAction_def executeAction_on_def pa using fnd rw role net
      by (auto simp: Let_def send_plain_def update_flights_eq update_runways_eq
            rls_flights_update rls_runways_update)
  next
    case 2
    then show ?thesis
      unfolding executeAction_def executeAction_on_def pa using fnd rw role net
      by (auto simp: Let_def send_plain_def update_flights_eq update_runways_eq
            rls_flights_update rls_runways_update)
  next
    case 3
    then show ?thesis
      unfolding executeAction_def executeAction_on_def pa using fnd rw role net
      by (auto simp: Let_def send_plain_def update_flights_eq update_runways_eq
            rls_flights_update rls_runways_update)
  qed
qed

text \<open>
  The handlers that call \<^verbatim>\<open>logActivity\<close> do so once, after a store call that reported
  no error, and not at all after one that reported an error (with the insert into the
  activity log reaching the store under a new identifier).
\<close>

lemma handlers_log_after_success:
  assumes "net e Req_activity_log"
    and "\<not> list_ex (\<lambda>y. l_id y = gen_random_uuid e Req_activity_log) (activity_log d)"
  shows "length (activity_log (snd (Flights_handleStatusChange e user fs fid st d)))
           = length (activity_log d)
              + (if fst (Flights_handleStatusChange e user fs fid st d) = None then 1 else 0)"
    and "length (activity_log (snd (Runways_handleStatusChange e user rs am rid rst d)))
           = length (activity_log d)
              + (if fst (Runways_handleStatusChange e user rs am rid rst d) = None then 1 else 0)"
    and "length (activity_log (snd (handleAcknowledge e user aid d)))
           = length (activity_log d)
              + (if fst (handleAcknowledge e user aid d) = None then 1 else 0)"
    and "length (activity_log (snd (handleDelay e user m reason (Some f) d)))
           = length (activity_log d)
              + (if fst (handleDelay e user m reason (Some f) d) = None then 1 else 0)"
    and "length (activity_log (snd (executeAction e user fs note (Some pa) d)))
           = length (activity_log d)
              + (if fst (executeAction e user fs note (Some pa) d) = None then 1 else 0)"
  using assms
  by (simp_all add: Flights_handleStatusChange_def Runways_handleStatusChange_def
        handleAcknowledge_def handleDelay_def executeAction_def executeAction_on_def
        send_plain_def update_flights_eq update_flights_timed_eq update_runways_eq
        update_alerts_eq Let_def logActivity_log
        split: option.splits)

end
